theory Spec2Isabelle
  imports Main "HOL-Library.Sublist"
begin

section \<open>Feed ingestion runner: \<open>services/feed-ingestion/runners/perplexity_runner.py\<close>\<close>

text \<open>
  A shallow embedding of the Perplexity runner. Python \<open>str\<close> values are \<open>string\<close>
  (each \<open>char\<close> one code point below 256), Python \<open>int\<close> is \<open>int\<close>, a dict with a fixed
  set of optional keys is a record of \<open>option\<close> fields (\<open>None\<close>: the key is absent), a
  table of the store is the list of its rows in storage order, and \<open>datetime\<close> values are
  microseconds since the epoch (UTC).
\<close>

subsection \<open>Python string operations used by the runner\<close>

text \<open>\<open>s.split(sep)\<close> for a one-character separator: always at least one piece.\<close>

fun split_on :: "char \<Rightarrow> string \<Rightarrow> string list" where
  "split_on c [] = [[]]"
| "split_on c (x # xs) =
     (if x = c then [] # split_on c xs
      else (case split_on c xs of
              [] \<Rightarrow> [[x]]
            | w # ws \<Rightarrow> (x # w) # ws))"

text \<open>\<open>str.isspace\<close> on one character, for the code points below 256.\<close>

definition is_space :: "char \<Rightarrow> bool" where
  "is_space c =
     (let n = (of_char c :: nat)
      in (9 \<le> n \<and> n \<le> 13) \<or> (28 \<le> n \<and> n \<le> 32) \<or> n = 133 \<or> n = 160)"

text \<open>\<open>s.strip()\<close> and \<open>s.strip('*')\<close>: drop the characters from both ends.\<close>

definition strip_with :: "(char \<Rightarrow> bool) \<Rightarrow> string \<Rightarrow> string" where
  "strip_with p s = rev (dropWhile p (rev (dropWhile p s)))"

definition strip :: "string \<Rightarrow> string" where
  "strip s = strip_with is_space s"

definition strip_stars :: "string \<Rightarrow> string" where
  "strip_stars s = strip_with (\<lambda>c. c = CHR ''*'') s"

definition startswith :: "string \<Rightarrow> string \<Rightarrow> bool" where
  "startswith s p = (take (length p) s = p)"

definition endswith :: "string \<Rightarrow> string \<Rightarrow> bool" where
  "endswith s p = (length p \<le> length s \<and> drop (length s - length p) s = p)"

text \<open>\<open>sep.join(xs)\<close>.\<close>

fun join :: "string \<Rightarrow> string list \<Rightarrow> string" where
  "join sep [] = []"
| "join sep [x] = x"
| "join sep (x # y # ys) = x @ sep @ join sep (y # ys)"

text \<open>
  \<open>s.lower()\<close> on the code points below 256: the ASCII capitals and the Latin-1
  capitals (\<open>0xC0\<close> to \<open>0xDE\<close>, without the multiplication sign \<open>0xD7\<close>) move up by 32;
  every other character is kept.
\<close>

definition lower_char :: "char \<Rightarrow> char" where
  "lower_char c =
     (let n = (of_char c :: nat)
      in if (65 \<le> n \<and> n \<le> 90) \<or> (192 \<le> n \<and> n \<le> 222 \<and> n \<noteq> 215)
         then char_of (n + 32) else c)"

definition lower :: "string \<Rightarrow> string" where
  "lower s = map lower_char s"

subsection \<open>JSON values (API responses)\<close>

datatype json =
    JNull
  | JBool bool
  | JNum int
  | JStr string
  | JArr "json list"
  | JObj "(string \<times> json) list"

text \<open>
  A JSON object is the association list of its members; \<open>d[k]\<close> and \<open>k in d\<close> read it
  through \<open>map_of\<close>. Python's truth value of a JSON value (\<open>if response:\<close>).
\<close>

fun truthy :: "json \<Rightarrow> bool" where
  "truthy JNull = False"
| "truthy (JBool b) = b"
| "truthy (JNum n) = (n \<noteq> 0)"
| "truthy (JStr s) = (s \<noteq> [])"
| "truthy (JArr xs) = (xs \<noteq> [])"
| "truthy (JObj kvs) = (kvs \<noteq> [])"

subsection \<open>Content Extractor: \<open>extract_content_from_response\<close>\<close>

text \<open>A candidate item: the dict with the optional keys \<open>title\<close>, \<open>url\<close>, \<open>summary\<close>.\<close>

record content_item =
  item_title :: "string option"
  item_url :: "string option"
  item_summary :: "string option"

definition empty_item :: content_item where
  "empty_item = \<lparr>item_title = None, item_url = None, item_summary = None\<rparr>"

text \<open>\<open>if current_item:\<close> a dict is true when it has a key.\<close>

definition item_nonempty :: "content_item \<Rightarrow> bool" where
  "item_nonempty it = (item_title it \<noteq> None \<or> item_url it \<noteq> None \<or> item_summary it \<noteq> None)"

text \<open>
  The loop over the lines (source lines 193-212), with \<open>content_items\<close> and
  \<open>current_item\<close> as accumulators; the last equation is the flush after the loop.
\<close>

fun extract_lines :: "string list \<Rightarrow> content_item list \<Rightarrow> content_item \<Rightarrow> content_item list" where
  "extract_lines [] content_items current_item =
     (if item_nonempty current_item then content_items @ [current_item] else content_items)"
| "extract_lines (raw # lines) content_items current_item =
     (let line = strip raw in
      if line = [] then
        (if item_nonempty current_item
         then extract_lines lines (content_items @ [current_item]) empty_item
         else extract_lines lines content_items current_item)
      else if startswith line ''**'' \<and> endswith line ''**'' then
        extract_lines lines
          (if item_nonempty current_item then content_items @ [current_item] else content_items)
          \<lparr>item_title = Some (strip_stars line), item_url = None, item_summary = None\<rparr>
      else if startswith line ''http'' then
        extract_lines lines content_items (current_item\<lparr>item_url := Some line\<rparr>)
      else if length line > 50 then
        extract_lines lines content_items (current_item\<lparr>item_summary := Some line\<rparr>)
      else extract_lines lines content_items current_item)"

text \<open>
  \<open>response["choices"][0]["message"]["content"]\<close>, guarded by
  \<open>"choices" in response and len(response["choices"]) > 0\<close>. \<open>None\<close> stands for every
  way the source leaves the \<open>try\<close> block with \<open>content_items\<close> still empty: the guard is
  false, or a subscript, \<open>len\<close> or \<open>split\<close> raises (a missing key, a value of the wrong
  type), which the \<open>except Exception\<close> handler swallows.
\<close>

definition first_completion_text :: "json \<Rightarrow> string option" where
  "first_completion_text response =
     (case response of
        JObj r \<Rightarrow>
          (case map_of r ''choices'' of
             Some (JArr (choice # _)) \<Rightarrow>
               (case choice of
                  JObj c \<Rightarrow>
                    (case map_of c ''message'' of
                       Some (JObj m) \<Rightarrow>
                         (case map_of m ''content'' of
                            Some (JStr content) \<Rightarrow> Some content
                          | _ \<Rightarrow> None)
                     | _ \<Rightarrow> None)
                | _ \<Rightarrow> None)
           | _ \<Rightarrow> None)
      | _ \<Rightarrow> None)"

definition extract_content_from_response :: "json \<Rightarrow> content_item list" where
  "extract_content_from_response response =
     (case first_completion_text response of
        None \<Rightarrow> []
      | Some content \<Rightarrow> extract_lines (split_on (CHR 0x0A) content) [] empty_item)"

subsection \<open>Stored records\<close>

text \<open>
  The tables of \<open>shared.models.database_models\<close> that the runner reads and writes, with
  the columns it touches. A nullable column is an \<open>option\<close>.
\<close>

record DataSource =
  ds_id :: int
  ds_name :: string
  ds_display_name :: string
  ds_base_url :: string
  ds_rate_limit_per_minute :: int
  ds_config :: "(string \<times> string) list"
  ds_is_active :: bool

record UserDB =
  usr_id :: int
  usr_username :: string

record UserCategory =
  uc_id :: int
  uc_user_id :: int
  uc_category_name :: string
  uc_keywords :: "string list option"
  uc_is_active :: bool

subsection \<open>Query Deriver: \<open>generate_personalized_queries\<close>, \<open>generate_fallback_queries\<close>\<close>

text \<open>The dict of one derived query; a caller of the task may leave keys out.\<close>

record query_dict =
  q_query :: "string option"
  q_category_id :: "int option"
  q_category_name :: "string option"
  q_user_id :: "int option"

text \<open>\<open>category.keywords or []\<close>.\<close>

definition keywords_or_empty :: "UserCategory \<Rightarrow> string list" where
  "keywords_or_empty category = (case uc_keywords category of None \<Rightarrow> [] | Some ks \<Rightarrow> ks)"

fun generate_personalized_queries :: "UserCategory list \<Rightarrow> query_dict list" where
  "generate_personalized_queries [] = []"
| "generate_personalized_queries (category # user_categories) =
     (let keywords = keywords_or_empty category;
          category_name = uc_category_name category
      in (if keywords \<noteq> [] then
            \<lparr>q_query = Some (''What are the latest news and developments about ''
                              @ join '', '' keywords @ ''?''),
             q_category_id = Some (uc_id category),
             q_category_name = Some category_name,
             q_user_id = Some (uc_user_id category)\<rparr>
          else
            \<lparr>q_query = Some (''What are the latest news and developments in ''
                              @ category_name @ ''?''),
             q_category_id = Some (uc_id category),
             q_category_name = Some category_name,
             q_user_id = Some (uc_user_id category)\<rparr>)
         # generate_personalized_queries user_categories)"

definition fallback_queries :: "string list" where
  "fallback_queries =
     [''What are the top technology news stories today?'',
      ''What are the major world events happening right now?'',
      ''What are the latest developments in AI and machine learning?'',
      ''What are the trending topics in science and research?'',
      ''What are the key business and finance news today?'']"

definition generate_fallback_queries :: "query_dict list" where
  "generate_fallback_queries =
     map (\<lambda>query. \<lparr>q_query = Some query,
                    q_category_id = None,
                    q_category_name = Some ''General'',
                    q_user_id = None\<rparr>)
         fallback_queries"

text \<open>\<open>get_user_categories\<close>: the active categories of one user.\<close>

definition get_user_categories :: "UserCategory list \<Rightarrow> int \<Rightarrow> UserCategory list" where
  "get_user_categories table user_id =
     filter (\<lambda>c. uc_user_id c = user_id \<and> uc_is_active c) table"

text \<open>An element of the task's \<open>queries\<close> argument: a dict, or a bare query string.\<close>

datatype query_entry = QDict query_dict | QStr string

text \<open>\<open>if user_id:\<close> an absent user id and the user id 0 are both false.\<close>

definition user_id_given :: "int option \<Rightarrow> bool" where
  "user_id_given user_id = (case user_id of None \<Rightarrow> False | Some u \<Rightarrow> u \<noteq> 0)"

text \<open>
  The query resolution of \<open>ingest_perplexity\<close> (source lines 286-300): the queries the
  run works on, from the task's arguments and the user's categories.
\<close>

definition resolve_queries ::
  "UserCategory list \<Rightarrow> int option \<Rightarrow> query_entry list option \<Rightarrow> query_entry list" where
  "resolve_queries table user_id queries =
     (case queries of
        Some qs \<Rightarrow> qs
      | None \<Rightarrow>
          (case user_id of
             Some u \<Rightarrow>
               (if u \<noteq> 0 then
                  (let user_categories = get_user_categories table u
                   in if user_categories \<noteq> []
                      then map QDict (generate_personalized_queries user_categories)
                      else map QDict generate_fallback_queries)
                else map QDict generate_fallback_queries)
           | None \<Rightarrow> map QDict generate_fallback_queries))"

subsection \<open>Response Cache: \<open>create_cache_key\<close>, \<open>get_cached_response\<close>, \<open>cache_response\<close>\<close>

record ContentCache =
  cc_cache_key :: string
  cc_data_source :: string
  cc_response_data :: json
  cc_expires_at :: int

text \<open>The calendar day (UTC) of a timestamp: days since the epoch.\<close>

definition microseconds_per_hour :: int where
  "microseconds_per_hour = 3600000000"

definition utc_day :: "int \<Rightarrow> int" where
  "utc_day t = t div (24 * microseconds_per_hour)"

text \<open>
  \<open>create_cache_key\<close>. The two library functions are parameters: \<open>md5_hex\<close> is
  \<open>hashlib.md5(s.encode()).hexdigest()\<close>, and \<open>ymd\<close> prints a day as
  \<open>strftime('%Y-%m-%d')\<close> does. \<open>now\<close> is the reading of \<open>datetime.utcnow()\<close>.
\<close>

definition create_cache_key ::
  "(string \<Rightarrow> string) \<Rightarrow> (int \<Rightarrow> string) \<Rightarrow> string \<Rightarrow> string \<Rightarrow> int \<Rightarrow> string" where
  "create_cache_key md5_hex ymd query model now =
     md5_hex (query @ '':'' @ model @ '':'' @ ymd (utc_day now))"

text \<open>The filter of \<open>get_cached_response\<close>: key, provider, and not yet expired.\<close>

definition cache_hit :: "string \<Rightarrow> int \<Rightarrow> ContentCache \<Rightarrow> bool" where
  "cache_hit cache_key now e =
     (cc_cache_key e = cache_key \<and> cc_data_source e = ''perplexity'' \<and> cc_expires_at e > now)"

text \<open>
  \<open>get_cached_response\<close>: \<open>.first()\<close> is the first row of the table, in storage order,
  that passes the filter. Python's \<open>None\<close> (no such row) is \<open>JNull\<close>.
\<close>

definition get_cached_response :: "ContentCache list \<Rightarrow> string \<Rightarrow> int \<Rightarrow> json" where
  "get_cached_response table cache_key now =
     (case find (cache_hit cache_key now) table of
        None \<Rightarrow> JNull
      | Some cache_entry \<Rightarrow> cc_response_data cache_entry)"

text \<open>\<open>cache_response\<close>: one more row; the callers pass \<open>expire_hours = 24\<close>, its default.\<close>

definition cache_response ::
  "ContentCache list \<Rightarrow> string \<Rightarrow> json \<Rightarrow> int \<Rightarrow> int \<Rightarrow> ContentCache list" where
  "cache_response table cache_key response_data expire_hours now =
     table @ [\<lparr>cc_cache_key = cache_key,
               cc_data_source = ''perplexity'',
               cc_response_data = response_data,
               cc_expires_at = now + expire_hours * microseconds_per_hour\<rparr>]"

subsection \<open>Item Upserter: \<open>save_feed_items\<close>\<close>

text \<open>
  \<open>raw_data\<close> of a feed item: the candidate item, or, for a run with a user, the item
  with \<open>user_category_id\<close>, \<open>user_id\<close> and \<open>category_name\<close> added.
\<close>

datatype raw_data =
    RawItem content_item
  | RawUserItem content_item "int option" int string

record FeedItem =
  fi_title :: "string option"
  fi_summary :: "string option"
  fi_url :: "string option"
  fi_source :: string
  fi_data_source_id :: int
  fi_published_at :: "int option"
  fi_updated_at :: "int option"
  fi_raw_data :: raw_data
  fi_category :: string
  fi_tags :: "string list"

text \<open>
  The three reads of \<open>category_info\<close> at the head of \<open>save_feed_items\<close>;
  \<open>category_info\<close> is a query dict, or \<open>None\<close>.
\<close>

definition category_name_of :: "query_dict option \<Rightarrow> string" where
  "category_name_of category_info =
     (case category_info of
        None \<Rightarrow> ''General''
      | Some d \<Rightarrow> (case q_category_name d of None \<Rightarrow> ''General'' | Some n \<Rightarrow> n))"

definition category_id_of :: "query_dict option \<Rightarrow> int option" where
  "category_id_of category_info =
     (case category_info of None \<Rightarrow> None | Some d \<Rightarrow> q_category_id d)"

definition user_id_of :: "query_dict option \<Rightarrow> int option" where
  "user_id_of category_info =
     (case category_info of None \<Rightarrow> None | Some d \<Rightarrow> q_user_id d)"

text \<open>
  The filter of the existence lookup: \<open>FeedItem.title == item.get("title")\<close> and
  \<open>FeedItem.data_source_id == data_source.id\<close>. A comparison with an absent title is
  \<open>title IS NULL\<close>.
\<close>

definition same_title_and_source :: "content_item \<Rightarrow> DataSource \<Rightarrow> FeedItem \<Rightarrow> bool" where
  "same_title_and_source item data_source r =
     (fi_title r = item_title item \<and> fi_data_source_id r = ds_id data_source)"

text \<open>The update branch (source lines 238-240).\<close>

definition update_existing :: "int \<Rightarrow> content_item \<Rightarrow> FeedItem \<Rightarrow> FeedItem" where
  "update_existing now item existing_item =
     existing_item
       \<lparr>fi_summary := (case item_summary item of None \<Rightarrow> fi_summary existing_item | Some s \<Rightarrow> Some s),
        fi_url := (case item_url item of None \<Rightarrow> fi_url existing_item | Some u \<Rightarrow> Some u),
        fi_updated_at := Some now\<rparr>"

text \<open>The create branch (source lines 244-263).\<close>

definition new_feed_item ::
  "int \<Rightarrow> DataSource \<Rightarrow> query_dict option \<Rightarrow> content_item \<Rightarrow> FeedItem" where
  "new_feed_item now data_source category_info item =
     (let category_name = category_name_of category_info;
          category_id = category_id_of category_info;
          user_id = user_id_of category_info
      in \<lparr>fi_title = Some (case item_title item of None \<Rightarrow> ''Untitled'' | Some t \<Rightarrow> t),
          fi_summary = Some (case item_summary item of None \<Rightarrow> [] | Some s \<Rightarrow> s),
          fi_url = Some (case item_url item of None \<Rightarrow> [] | Some u \<Rightarrow> u),
          fi_source = ''Perplexity AI'',
          fi_data_source_id = ds_id data_source,
          fi_published_at = Some now,
          fi_updated_at = None,
          fi_raw_data =
            (if user_id_given user_id
             then RawUserItem item category_id (case user_id of None \<Rightarrow> 0 | Some u \<Rightarrow> u) category_name
             else RawItem item),
          fi_category = category_name,
          fi_tags =
            (if category_name \<noteq> ''General''
             then [''ai'', ''perplexity'', lower category_name]
             else [''ai'', ''perplexity''])\<rparr>)"

text \<open>
  Updating the first row that passes a filter: \<open>.first()\<close> followed by the assignments
  to the row found. \<open>None\<close>: no row passes.
\<close>

fun update_first :: "('a \<Rightarrow> bool) \<Rightarrow> ('a \<Rightarrow> 'a) \<Rightarrow> 'a list \<Rightarrow> 'a list option" where
  "update_first P f [] = None"
| "update_first P f (r # rs) =
     (if P r then Some (f r # rs)
      else (case update_first P f rs of None \<Rightarrow> None | Some rs' \<Rightarrow> Some (r # rs')))"

record save_counts =
  sc_created :: int
  sc_updated :: int

text \<open>
  The loop of \<open>save_feed_items\<close> and the commit after it. \<open>rows\<close> is the table as the
  session's queries see it, \<open>pending\<close> the rows added by \<open>self.db.add\<close> and not yet
  flushed. \<open>autoflush\<close> is the session's setting (\<open>SessionLocal\<close> is configured outside
  this file): with it, every query first flushes the pending rows into the table.
  The commit writes the pending rows. With items that are dicts of strings nothing in
  the loop body raises, so the \<open>except Exception: continue\<close> of the source has no
  branch here.
\<close>

fun save_loop ::
  "bool \<Rightarrow> int \<Rightarrow> DataSource \<Rightarrow> query_dict option \<Rightarrow> content_item list \<Rightarrow>
   FeedItem list \<Rightarrow> FeedItem list \<Rightarrow> int \<Rightarrow> int \<Rightarrow> FeedItem list \<times> save_counts" where
  "save_loop autoflush now data_source category_info [] rows pending created updated =
     (rows @ pending, \<lparr>sc_created = created, sc_updated = updated\<rparr>)"
| "save_loop autoflush now data_source category_info (item # content_items) rows pending created updated =
     (let rows1 = (if autoflush then rows @ pending else rows);
          pending1 = (if autoflush then [] else pending)
      in case update_first (same_title_and_source item data_source) (update_existing now item) rows1 of
           Some rows2 \<Rightarrow>
             save_loop autoflush now data_source category_info content_items
               rows2 pending1 created (updated + 1)
         | None \<Rightarrow>
             save_loop autoflush now data_source category_info content_items
               rows1 (pending1 @ [new_feed_item now data_source category_info item])
               (created + 1) updated)"

definition save_feed_items ::
  "bool \<Rightarrow> int \<Rightarrow> FeedItem list \<Rightarrow> content_item list \<Rightarrow> DataSource \<Rightarrow> query_dict option \<Rightarrow>
   FeedItem list \<times> save_counts" where
  "save_feed_items autoflush now table content_items data_source category_info =
     save_loop autoflush now data_source category_info content_items table [] 0 0"

text \<open>
  The two columns the existence lookup compares, the candidates of a batch without a
  title, and the stored rows of a data source with the default title.
\<close>

definition row_key :: "FeedItem \<Rightarrow> string option \<times> int" where
  "row_key r = (fi_title r, fi_data_source_id r)"

definition titleless :: "content_item list \<Rightarrow> content_item list" where
  "titleless content_items = filter (\<lambda>item. item_title item = None) content_items"

definition untitled_rows :: "DataSource \<Rightarrow> FeedItem list \<Rightarrow> FeedItem list" where
  "untitled_rows data_source table =
     filter (\<lambda>r. fi_title r = Some ''Untitled'' \<and> fi_data_source_id r = ds_id data_source) table"

subsection \<open>The store, the session and the surroundings of a run\<close>

text \<open>Exceptions that reach the entry points, and \<open>str(e)\<close>.\<close>

datatype py_exception =
    KeyError string
  | TimeoutError
  | OtherException string

fun str_exception :: "py_exception \<Rightarrow> string" where
  "str_exception (KeyError k) = [CHR 0x27] @ k @ [CHR 0x27]"
| "str_exception TimeoutError = ''The operation timed out.''"
| "str_exception (OtherException msg) = msg"

text \<open>
  The parameters snapshot of a job: \<open>{"user_id": ..., "queries": [...]}\<close> for a single
  run, \<open>{"users_count": ...}\<close> for the fan-out.
\<close>

datatype job_parameters =
    SingleParameters "int option" "query_entry list"
  | FanoutParameters nat

record IngestionJob =
  job_type :: string
  job_status :: string
  job_started_at :: int
  job_completed_at :: "int option"
  job_parameters :: job_parameters
  job_data_source_id :: int
  job_items_created :: "int option"
  job_items_updated :: "int option"
  job_error_message :: "string option"

text \<open>The \<open>meta\<close> of a progress report (\<open>self.update_state(state="PROGRESS", ...)\<close>).\<close>

datatype progress =
    QueryProgress string nat nat string
  | UserProgress string nat nat

text \<open>
  The state a task works on: the tables, the number of sessions opened by
  \<open>SessionLocal()\<close> and not yet closed, and the progress reports sent so far.
\<close>

record world =
  w_data_sources :: "DataSource list"
  w_users :: "UserDB list"
  w_user_categories :: "UserCategory list"
  w_content_cache :: "ContentCache list"
  w_feed_items :: "FeedItem list"
  w_ingestion_jobs :: "IngestionJob list"
  w_open_sessions :: nat
  w_progress :: "progress list"

text \<open>
  What \<open>requests.post\<close>, \<open>raise_for_status\<close> and \<open>response.json()\<close> together yield for
  one query: the decoded body, a \<open>RequestException\<close>, or an exception of another class
  (which \<open>query_perplexity\<close> does not catch).
\<close>

datatype http_outcome =
    HttpOk json
  | HttpRequestException string
  | HttpOtherException py_exception

text \<open>
  What lies outside the file: the credential of the process environment, the provider,
  the hash and date format of the cache key, the clock (one reading for the run), the
  session's autoflush setting, and the column default of \<open>DataSource.is_active\<close>.
\<close>

record env =
  env_api_key :: "string option"
  env_http_post :: "string \<Rightarrow> string \<Rightarrow> http_outcome"
  env_md5_hex :: "string \<Rightarrow> string"
  env_ymd :: "int \<Rightarrow> string"
  env_now :: int
  env_autoflush :: bool
  env_default_is_active :: bool

text \<open>\<open>PerplexityRunner()\<close>: \<open>self.db = SessionLocal()\<close>; and \<open>runner.db.close()\<close>.\<close>

definition open_session :: "world \<Rightarrow> world" where
  "open_session w = w\<lparr>w_open_sessions := w_open_sessions w + 1\<rparr>"

definition close_session :: "world \<Rightarrow> world" where
  "close_session w = w\<lparr>w_open_sessions := w_open_sessions w - 1\<rparr>"

definition update_state :: "progress \<Rightarrow> world \<Rightarrow> world" where
  "update_state meta w = w\<lparr>w_progress := w_progress w @ [meta]\<rparr>"

definition base_url :: string where
  "base_url = ''https://api.perplexity.ai/chat/completions''"

definition default_model :: string where
  "default_model = ''llama-3.1-sonar-small-128k-online''"

text \<open>The id the store gives a new row: one more than the largest id in use.\<close>

definition next_id :: "int list \<Rightarrow> int" where
  "next_id ids = fold max ids 0 + 1"

text \<open>
  \<open>get_data_source\<close>: the first data source named \<open>perplexity\<close>, created when there is
  none; the result is \<open>None\<close> when that row is not active.
\<close>

definition get_data_source :: "env \<Rightarrow> world \<Rightarrow> DataSource option \<times> world" where
  "get_data_source env w =
     (case find (\<lambda>d. ds_name d = ''perplexity'') (w_data_sources w) of
        Some data_source \<Rightarrow>
          (if ds_is_active data_source then Some data_source else None, w)
      | None \<Rightarrow>
          (let data_source =
                 \<lparr>ds_id = next_id (map ds_id (w_data_sources w)),
                  ds_name = ''perplexity'',
                  ds_display_name = ''Perplexity AI'',
                  ds_base_url = base_url,
                  ds_rate_limit_per_minute = 60,
                  ds_config = [(''model'', ''llama-3.1-sonar-small-128k-online'')],
                  ds_is_active = env_default_is_active env\<rparr>
           in (if ds_is_active data_source then Some data_source else None,
               w\<lparr>w_data_sources := w_data_sources w @ [data_source]\<rparr>)))"

subsection \<open>API Client: \<open>query_perplexity\<close>\<close>

text \<open>
  The result is \<open>Inl e\<close> when an exception leaves the function, else the response
  (\<open>JNull\<close> for \<open>None\<close>).
\<close>

definition query_perplexity ::
  "env \<Rightarrow> world \<Rightarrow> string \<Rightarrow> string \<Rightarrow> (py_exception + json) \<times> world" where
  "query_perplexity env w query model =
     (if env_api_key env = None \<or> env_api_key env = Some [] then (Inr JNull, w)
      else
        (let cache_key = create_cache_key (env_md5_hex env) (env_ymd env) query model (env_now env);
             cached_response = get_cached_response (w_content_cache w) cache_key (env_now env)
         in if truthy cached_response then (Inr cached_response, w)
            else
              (case env_http_post env query model of
                 HttpOk result \<Rightarrow>
                   (Inr result,
                    w\<lparr>w_content_cache :=
                        cache_response (w_content_cache w) cache_key result 24 (env_now env)\<rparr>)
               | HttpRequestException msg \<Rightarrow> (Inr JNull, w)
               | HttpOtherException e \<Rightarrow> (Inl e, w))))"

subsection \<open>Job Orchestrator: \<open>ingest_perplexity\<close>\<close>

text \<open>What a task returns, and how a task ends.\<close>

datatype task_result =
    ErrorResult string
  | SingleCompleted int int nat "int option"
  | FanoutCompleted int int nat nat

datatype task_outcome =
    Returned task_result
  | RetryRequested nat nat

text \<open>
  \<open>ErrorResult msg\<close> is \<open>{"error": msg}\<close>;
  \<open>SingleCompleted created updated queries_processed user_id\<close> and
  \<open>FanoutCompleted created updated users_processed total_users\<close> are the two
  \<open>{"status": "completed", ...}\<close> dicts; \<open>RetryRequested countdown max_retries\<close> is
  \<open>raise self.retry(countdown=..., max_retries=...)\<close>.
\<close>

definition default_category_info :: query_dict where
  "default_category_info =
     \<lparr>q_query = None, q_category_id = None, q_category_name = Some ''General'', q_user_id = None\<rparr>"

text \<open>The head of the loop body (source lines 318-323); \<open>query_info["query"]\<close> raises
  \<open>KeyError\<close> on a dict without that key.\<close>

definition query_and_category :: "query_entry \<Rightarrow> py_exception + (string \<times> query_dict)" where
  "query_and_category query_info =
     (case query_info of
        QDict d \<Rightarrow>
          (case q_query d of
             None \<Rightarrow> Inl (KeyError ''query'')
           | Some query \<Rightarrow> Inr (query, d))
      | QStr query \<Rightarrow> Inr (query, default_category_info))"

text \<open>
  The loop over the queries (source lines 317-341), with \<open>i\<close>, \<open>total_created\<close> and
  \<open>total_updated\<close> as accumulators. \<open>Inl e\<close>: the exception \<open>e\<close> leaves the loop.
\<close>

fun run_queries ::
  "env \<Rightarrow> DataSource \<Rightarrow> nat \<Rightarrow> query_entry list \<Rightarrow> nat \<Rightarrow> world \<Rightarrow> int \<Rightarrow> int \<Rightarrow>
   (py_exception + (int \<times> int)) \<times> world" where
  "run_queries env data_source n_total [] i w total_created total_updated =
     (Inr (total_created, total_updated), w)"
| "run_queries env data_source n_total (query_info # queries) i w total_created total_updated =
     (case query_and_category query_info of
        Inl e \<Rightarrow> (Inl e, w)
      | Inr (query, category_info) \<Rightarrow>
          (let w1 = update_state
                      (QueryProgress query (i + 1) n_total (category_name_of (Some category_info))) w
           in case query_perplexity env w1 query default_model of
                (Inl e, w2) \<Rightarrow> (Inl e, w2)
              | (Inr response, w2) \<Rightarrow>
                  (if truthy response then
                     (let content_items = extract_content_from_response response;
                          saved = save_feed_items (env_autoflush env) (env_now env)
                                    (w_feed_items w2) content_items data_source (Some category_info)
                      in run_queries env data_source n_total queries (i + 1)
                           (w2\<lparr>w_feed_items := fst saved\<rparr>)
                           (total_created + sc_created (snd saved))
                           (total_updated + sc_updated (snd saved)))
                   else run_queries env data_source n_total queries (i + 1) w2
                          total_created total_updated)))"

text \<open>The \<open>queries\<close> entry of the job parameters (source line 307).\<close>

definition parameter_queries :: "query_entry list \<Rightarrow> query_entry list" where
  "parameter_queries queries =
     map (\<lambda>q. case q of
                 QDict d \<Rightarrow> (case q_query d of None \<Rightarrow> QDict d | Some query \<Rightarrow> QStr query)
               | QStr s \<Rightarrow> QStr s)
         queries"

text \<open>
  The two ways a job record ends. The job object stays attached to the session, so the
  assignments and the commit rewrite its row, the row at the index where it was added.
\<close>

definition complete_job :: "int \<Rightarrow> int \<Rightarrow> int \<Rightarrow> IngestionJob \<Rightarrow> IngestionJob" where
  "complete_job now total_created total_updated job =
     job\<lparr>job_status := ''completed'',
         job_completed_at := Some now,
         job_items_created := Some total_created,
         job_items_updated := Some total_updated\<rparr>"

definition fail_job :: "int \<Rightarrow> py_exception \<Rightarrow> IngestionJob \<Rightarrow> IngestionJob" where
  "fail_job now e job =
     job\<lparr>job_status := ''failed'',
         job_completed_at := Some now,
         job_error_message := Some (str_exception e)\<rparr>"

definition store_job :: "nat \<Rightarrow> IngestionJob \<Rightarrow> world \<Rightarrow> world" where
  "store_job ix job w = w\<lparr>w_ingestion_jobs := (w_ingestion_jobs w)[ix := job]\<rparr>"

text \<open>The job record of a single run as it is created (source lines 303-309).\<close>

definition single_job ::
  "env \<Rightarrow> DataSource \<Rightarrow> int option \<Rightarrow> query_entry list \<Rightarrow> IngestionJob" where
  "single_job env data_source user_id queries =
     \<lparr>job_type = ''perplexity'',
      job_status = ''running'',
      job_started_at = env_now env,
      job_completed_at = None,
      job_parameters = SingleParameters user_id (parameter_queries queries),
      job_data_source_id = ds_id data_source,
      job_items_created = None,
      job_items_updated = None,
      job_error_message = None\<rparr>"

text \<open>\<open>runner.db.add(job)\<close> and \<open>runner.db.commit()\<close>.\<close>

definition add_job :: "IngestionJob \<Rightarrow> world \<Rightarrow> world" where
  "add_job job w = w\<lparr>w_ingestion_jobs := w_ingestion_jobs w @ [job]\<rparr>"

definition ingest_perplexity ::
  "env \<Rightarrow> world \<Rightarrow> int option \<Rightarrow> query_entry list option \<Rightarrow> task_outcome \<times> world" where
  "ingest_perplexity env w user_id queries =
     (case get_data_source env (open_session w) of
        (None, w1) \<Rightarrow> (Returned (ErrorResult ''Data source not found''), w1)
      | (Some data_source, w1) \<Rightarrow>
          (let queries1 = resolve_queries (w_user_categories w1) user_id queries;
               job = single_job env data_source user_id queries1;
               ix = length (w_ingestion_jobs w1);
               w2 = add_job job w1
           in case run_queries env data_source (length queries1) queries1 0 w2 0 0 of
                (Inr (total_created, total_updated), w3) \<Rightarrow>
                  (Returned (SingleCompleted total_created total_updated (length queries1) user_id),
                   close_session
                     (store_job ix (complete_job (env_now env) total_created total_updated job) w3))
              | (Inl e, w3) \<Rightarrow>
                  (RetryRequested 60 3,
                   close_session (store_job ix (fail_job (env_now env) e job) w3))))"

subsection \<open>Job Orchestrator: \<open>ingest_perplexity_for_all_users\<close>\<close>

text \<open>
  \<open>ingest_perplexity.delay(user.id)\<close> followed by \<open>result.get(timeout=300)\<close>: the
  sub-run executes in a worker of its own, and the fan-out sees what the wait yields,
  the sub-run's result or an exception (\<open>TimeoutError\<close> after the five minutes, or the
  exception the sub-run ended with).
\<close>

datatype sub_outcome =
    SubReturned task_result
  | SubRaised py_exception

text \<open>\<open>"created" in user_result\<close>, and the two counts read from it.\<close>

fun counts_of :: "task_result \<Rightarrow> (int \<times> int) option" where
  "counts_of (ErrorResult msg) = None"
| "counts_of (SingleCompleted created updated n user_id) = Some (created, updated)"
| "counts_of (FanoutCompleted created updated n m) = Some (created, updated)"

text \<open>The users that have an active category, each once.\<close>

definition users_with_categories :: "world \<Rightarrow> UserDB list" where
  "users_with_categories w =
     remdups (filter (\<lambda>u. list_ex (\<lambda>c. uc_user_id c = usr_id u \<and> uc_is_active c)
                                   (w_user_categories w))
                     (w_users w))"

text \<open>The loop over the users (source lines 401-419).\<close>

fun run_users ::
  "(int \<Rightarrow> sub_outcome) \<Rightarrow> nat \<Rightarrow> UserDB list \<Rightarrow> world \<Rightarrow> int \<Rightarrow> int \<Rightarrow> nat \<Rightarrow>
   (py_exception + (int \<times> int \<times> nat)) \<times> world" where
  "run_users wait n_total [] w total_created total_updated users_processed =
     (Inr (total_created, total_updated, users_processed), w)"
| "run_users wait n_total (user # users) w total_created total_updated users_processed =
     (let w1 = update_state (UserProgress (usr_username user) (users_processed + 1) n_total) w
      in case wait (usr_id user) of
           SubRaised e \<Rightarrow> (Inl e, w1)
         | SubReturned user_result \<Rightarrow>
             (case counts_of user_result of
                Some (created, updated) \<Rightarrow>
                  run_users wait n_total users w1
                    (total_created + created) (total_updated + updated) (users_processed + 1)
              | None \<Rightarrow>
                  run_users wait n_total users w1 total_created total_updated users_processed))"

text \<open>The job record of the fan-out as it is created (source lines 390-396).\<close>

definition fanout_job :: "env \<Rightarrow> DataSource \<Rightarrow> nat \<Rightarrow> IngestionJob" where
  "fanout_job env data_source users_count =
     \<lparr>job_type = ''perplexity_all_users'',
      job_status = ''running'',
      job_started_at = env_now env,
      job_completed_at = None,
      job_parameters = FanoutParameters users_count,
      job_data_source_id = ds_id data_source,
      job_items_created = None,
      job_items_updated = None,
      job_error_message = None\<rparr>"

definition ingest_perplexity_for_all_users ::
  "env \<Rightarrow> (int \<Rightarrow> sub_outcome) \<Rightarrow> world \<Rightarrow> task_outcome \<times> world" where
  "ingest_perplexity_for_all_users env wait w =
     (case get_data_source env (open_session w) of
        (None, w1) \<Rightarrow> (Returned (ErrorResult ''Data source not found''), w1)
      | (Some data_source, w1) \<Rightarrow>
          (let users = users_with_categories w1;
               job = fanout_job env data_source (length users);
               ix = length (w_ingestion_jobs w1);
               w2 = add_job job w1
           in case run_users wait (length users) users w2 0 0 0 of
                (Inr (total_created, total_updated, users_processed), w3) \<Rightarrow>
                  (Returned (FanoutCompleted total_created total_updated users_processed (length users)),
                   close_session
                     (store_job ix (complete_job (env_now env) total_created total_updated job) w3))
              | (Inl e, w3) \<Rightarrow>
                  (RetryRequested 60 3,
                   close_session (store_job ix (fail_job (env_now env) e job) w3))))"

text \<open>
  The counts the fan-out reads from the sub-runs of a list of users: one pair for each
  user whose wait yields a result with the key \<open>created\<close>.
\<close>

definition sub_counts :: "(int \<Rightarrow> sub_outcome) \<Rightarrow> UserDB \<Rightarrow> (int \<times> int) option" where
  "sub_counts wait user =
     (case wait (usr_id user) of
        SubReturned user_result \<Rightarrow> counts_of user_result
      | SubRaised e \<Rightarrow> None)"

definition sub_returns :: "(int \<Rightarrow> sub_outcome) \<Rightarrow> UserDB \<Rightarrow> bool" where
  "sub_returns wait user =
     (case wait (usr_id user) of SubReturned user_result \<Rightarrow> True | SubRaised e \<Rightarrow> False)"

subsection \<open>Example inputs\<close>

text \<open>A response whose first completion's text is \<open>content\<close>.\<close>

definition response_with_text :: "string \<Rightarrow> json" where
  "response_with_text content =
     JObj [(''choices'', JArr [JObj [(''message'', JObj [(''content'', JStr content)])]])]"

definition example_text :: string where
  "example_text =
     ''**Title**'' @ [CHR 0x0A] @ ''http://example.com'' @ [CHR 0x0A] @
     ''A summary line that is long enough to exceed fifty characters easily.'' @ [CHR 0x0A]"

definition football_category :: UserCategory where
  "football_category =
     \<lparr>uc_id = 7, uc_user_id = 3, uc_category_name = ''Football'',
      uc_keywords = Some [''Arsenal'', ''transfers''], uc_is_active = True\<rparr>"

definition two_categories :: "UserCategory list" where
  "two_categories =
     [football_category, football_category\<lparr>uc_user_id := 5, uc_is_active := False\<rparr>]"

definition perplexity_source :: DataSource where
  "perplexity_source =
     \<lparr>ds_id = 1, ds_name = ''perplexity'', ds_display_name = ''Perplexity AI'',
      ds_base_url = ''https://api.perplexity.ai/chat/completions'',
      ds_rate_limit_per_minute = 60,
      ds_config = [(''model'', ''llama-3.1-sonar-small-128k-online'')],
      ds_is_active = True\<rparr>"

definition titled_item :: content_item where
  "titled_item =
     \<lparr>item_title = Some ''Title'', item_url = Some ''http://example.com'', item_summary = None\<rparr>"

definition other_item :: content_item where
  "other_item = \<lparr>item_title = Some ''Other'', item_url = None, item_summary = None\<rparr>"

definition titleless_item :: content_item where
  "titleless_item =
     \<lparr>item_title = None, item_url = Some ''http://example.com'', item_summary = None\<rparr>"


definition example_env :: env where
  "example_env =
     \<lparr>env_api_key = Some ''secret'',
      env_http_post = (\<lambda>query model. HttpRequestException ''unreachable''),
      env_md5_hex = (\<lambda>s. s),
      env_ymd = (\<lambda>d. ''1970-01-01''),
      env_now = 0,
      env_autoflush = False,
      env_default_is_active = True\<rparr>"

text \<open>A store with the active data source and one user that has an active category.\<close>

definition example_world :: world where
  "example_world =
     \<lparr>w_data_sources = [perplexity_source],
      w_users = [\<lparr>usr_id = 3, usr_username = ''ann''\<rparr>],
      w_user_categories = [football_category],
      w_content_cache = [],
      w_feed_items = [],
      w_ingestion_jobs = [],
      w_open_sessions = 0,
      w_progress = []\<rparr>"

text \<open>The same store with the data source switched off.\<close>

definition inactive_world :: world where
  "inactive_world =
     example_world\<lparr>w_data_sources := [perplexity_source\<lparr>ds_is_active := False\<rparr>]\<rparr>"

text \<open>The same store without any data source.\<close>

definition absent_world :: world where
  "absent_world = example_world\<lparr>w_data_sources := []\<rparr>"

text \<open>A batch that mixes candidates with and without a title.\<close>

definition mixed_batch :: "content_item list" where
  "mixed_batch = [titleless_item, titled_item, titleless_item]"

text \<open>A query dict without the key \<open>query\<close>.\<close>

definition query_without_text :: query_entry where
  "query_without_text =
     QDict \<lparr>q_query = None, q_category_id = None, q_category_name = Some ''General'',
            q_user_id = None\<rparr>"

text \<open>Waits that yield the error result, and waits that time out.\<close>

definition wait_error_result :: "int \<Rightarrow> sub_outcome" where
  "wait_error_result user_id = SubReturned (ErrorResult ''Data source not found'')"

definition wait_timeout :: "int \<Rightarrow> sub_outcome" where
  "wait_timeout user_id = SubRaised TimeoutError"

section \<open>Properties\<close>

text \<open>
  C3. The Content Extractor, run on a response whose first completion text is
  \<open>"**Title**\nhttp://example.com\nA summary line that is long enough to exceed fifty
  characters easily.\n"\<close>, returns exactly one item: title \<open>Title\<close>, url
  \<open>http://example.com\<close>, and the long third line as summary.
\<close>

theorem extract_example:
  "extract_content_from_response (response_with_text example_text) =
     [\<lparr>item_title = Some ''Title'',
       item_url = Some ''http://example.com'',
       item_summary = Some ''A summary line that is long enough to exceed fifty characters easily.''\<rparr>]"
  by code_simp


subsection \<open>Query derivation\<close>

lemma sublist_embed:
  assumes "sublist k a"
  shows "sublist k (p @ a @ s)"
proof -
  from assms obtain u v where "a = u @ k @ v"
    by (auto simp: sublist_def)
  then have "p @ a @ s = (p @ u) @ k @ (v @ s)"
    by simp
  then show ?thesis
    unfolding sublist_def by blast
qed

lemma sublist_join: "k \<in> set ks \<Longrightarrow> sublist k (join sep ks)"
proof (induction sep ks rule: join.induct)
  case (1 sep)
  then show ?case by simp
next
  case (2 sep x)
  then show ?case by simp
next
  case (3 sep x y ys)
  show ?case
  proof (cases "k = x")
    case True
    have "sublist x ([] @ x @ (sep @ join sep (y # ys)))"
      by (rule sublist_appendI)
    with True show ?thesis by simp
  next
    case False
    with 3 have "sublist k (join sep (y # ys))" by simp
    then have "sublist k ((x @ sep) @ join sep (y # ys) @ [])"
      by (rule sublist_embed)
    then show ?thesis by simp
  qed
qed

lemma length_generate_personalized_queries:
  "length (generate_personalized_queries cs) = length cs"
  by (induction cs) (simp_all add: Let_def)

lemma generate_personalized_queries_nth:
  "i < length cs \<Longrightarrow>
   generate_personalized_queries cs ! i = hd (generate_personalized_queries [cs ! i])"
proof (induction cs arbitrary: i)
  case Nil
  then show ?case by simp
next
  case (Cons c cs)
  then show ?case by (cases i) (simp_all add: Let_def)
qed

text \<open>
  C6. For every category (at any position \<open>i\<close> of the list handed to the deriver, which
  \<open>get_user_categories\<close> fills with active categories only) whose keyword list is
  non-empty, the query derived for it is the template
  \<open>What are the latest news and developments about ...?\<close> around the keywords joined
  by \<open>", "\<close>, so every keyword occurs in it, and it carries the category's id, name and
  user id unchanged. One query is derived per category, in order.
\<close>

theorem personalized_query_keywords:
  assumes "i < length cs" and "uc_keywords (cs ! i) = Some ks" and "ks \<noteq> []"
  shows "generate_personalized_queries cs ! i =
           \<lparr>q_query = Some (''What are the latest news and developments about ''
                            @ join '', '' ks @ ''?''),
            q_category_id = Some (uc_id (cs ! i)),
            q_category_name = Some (uc_category_name (cs ! i)),
            q_user_id = Some (uc_user_id (cs ! i))\<rparr>
         \<and> length (generate_personalized_queries cs) = length cs
         \<and> (\<forall>k \<in> set ks. sublist k (join '', '' ks)
               \<and> sublist k (''What are the latest news and developments about ''
                            @ join '', '' ks @ ''?''))"
proof -
  have q: "generate_personalized_queries cs ! i =
           \<lparr>q_query = Some (''What are the latest news and developments about ''
                            @ join '', '' ks @ ''?''),
            q_category_id = Some (uc_id (cs ! i)),
            q_category_name = Some (uc_category_name (cs ! i)),
            q_user_id = Some (uc_user_id (cs ! i))\<rparr>"
    using assms
    by (simp add: generate_personalized_queries_nth keywords_or_empty_def Let_def)
  have s: "sublist k (join '', '' ks)" if "k \<in> set ks" for k
    using that by (rule sublist_join)
  have t: "sublist k (''What are the latest news and developments about ''
                      @ join '', '' ks @ ''?'')"
    if "k \<in> set ks" for k
    using s [OF that] by (rule sublist_embed)
  from q s t length_generate_personalized_queries [of cs] show ?thesis
    by blast
qed

theorem personalized_query_keywords_witness:
  "(0::nat) < length [football_category]
   \<and> uc_keywords ([football_category] ! 0) = Some [''Arsenal'', ''transfers'']
   \<and> generate_personalized_queries [football_category] ! 0 =
       \<lparr>q_query = Some ''What are the latest news and developments about Arsenal, transfers?'',
        q_category_id = Some 7,
        q_category_name = Some ''Football'',
        q_user_id = Some 3\<rparr>
   \<and> sublist ''Arsenal'' ''What are the latest news and developments about Arsenal, transfers?''
   \<and> sublist ''transfers'' ''What are the latest news and developments about Arsenal, transfers?''"
  using personalized_query_keywords [of 0 "[football_category]" "[''Arsenal'', ''transfers'']"]
  by (simp add: football_category_def)

text \<open>
  C5 fails for the per-category derivation itself: \<open>generate_personalized_queries\<close>
  maps an empty category list to the empty list, not to the fallback queries.
\<close>

theorem personalized_empty_counterexample:
  "generate_personalized_queries [] = [] \<and> generate_personalized_queries [] \<noteq> generate_fallback_queries"
  by (simp add: generate_fallback_queries_def fallback_queries_def)

text \<open>
  C5, as the code has it. It is the query resolution of the single-run entry point
  that selects the fallback list for a user without active categories, the same list
  as for a run without a user: five fixed queries, each with category name \<open>General\<close>,
  no category id and no user id.
\<close>

theorem fallback_for_user_without_categories:
  assumes "get_user_categories table u = []"
  shows "resolve_queries table (Some u) None = map QDict generate_fallback_queries
         \<and> resolve_queries table None None = map QDict generate_fallback_queries
         \<and> generate_fallback_queries =
             [\<lparr>q_query = Some ''What are the top technology news stories today?'',
               q_category_id = None, q_category_name = Some ''General'', q_user_id = None\<rparr>,
              \<lparr>q_query = Some ''What are the major world events happening right now?'',
               q_category_id = None, q_category_name = Some ''General'', q_user_id = None\<rparr>,
              \<lparr>q_query = Some ''What are the latest developments in AI and machine learning?'',
               q_category_id = None, q_category_name = Some ''General'', q_user_id = None\<rparr>,
              \<lparr>q_query = Some ''What are the trending topics in science and research?'',
               q_category_id = None, q_category_name = Some ''General'', q_user_id = None\<rparr>,
              \<lparr>q_query = Some ''What are the key business and finance news today?'',
               q_category_id = None, q_category_name = Some ''General'', q_user_id = None\<rparr>]"
proof -
  have "resolve_queries table (Some u) None = map QDict generate_fallback_queries"
    using assms by (simp add: resolve_queries_def Let_def)
  moreover have "resolve_queries table None None = map QDict generate_fallback_queries"
    by (simp add: resolve_queries_def)
  ultimately show ?thesis
    by (simp add: generate_fallback_queries_def fallback_queries_def)
qed

theorem fallback_for_user_without_categories_witness:
  "get_user_categories two_categories 5 = []
   \<and> resolve_queries two_categories (Some 5) None = map QDict generate_fallback_queries
   \<and> resolve_queries two_categories None None = map QDict generate_fallback_queries
   \<and> length generate_fallback_queries = 5"
proof -
  have h: "get_user_categories two_categories 5 = []"
    by (simp add: get_user_categories_def two_categories_def football_category_def)
  from fallback_for_user_without_categories [OF h]
  have "resolve_queries two_categories (Some 5) None = map QDict generate_fallback_queries"
    and "resolve_queries two_categories None None = map QDict generate_fallback_queries"
    and "generate_fallback_queries =
             [\<lparr>q_query = Some ''What are the top technology news stories today?'',
               q_category_id = None, q_category_name = Some ''General'', q_user_id = None\<rparr>,
              \<lparr>q_query = Some ''What are the major world events happening right now?'',
               q_category_id = None, q_category_name = Some ''General'', q_user_id = None\<rparr>,
              \<lparr>q_query = Some ''What are the latest developments in AI and machine learning?'',
               q_category_id = None, q_category_name = Some ''General'', q_user_id = None\<rparr>,
              \<lparr>q_query = Some ''What are the trending topics in science and research?'',
               q_category_id = None, q_category_name = Some ''General'', q_user_id = None\<rparr>,
              \<lparr>q_query = Some ''What are the key business and finance news today?'',
               q_category_id = None, q_category_name = Some ''General'', q_user_id = None\<rparr>]"
    by blast+
  moreover have "length generate_fallback_queries = 5"
    by (simp add: generate_fallback_queries_def fallback_queries_def)
  ultimately show ?thesis using h by blast
qed

subsection \<open>Response cache\<close>


lemma find_append:
  "find P (xs @ ys) = (case find P xs of None \<Rightarrow> find P ys | Some x \<Rightarrow> Some x)"
  by (induction xs) simp_all









subsection \<open>Item upserter\<close>

lemma update_first_None_iff:
  "update_first P f rs = None \<longleftrightarrow> find P rs = None"
  by (induction rs) (auto split: option.splits)

lemma update_first_Some_find:
  assumes "update_first P f rs = Some rs'" and "\<And>r. P r \<Longrightarrow> P (f r)"
  shows "find P rs' \<noteq> None"
  using assms
proof (induction rs arbitrary: rs')
  case Nil
  then show ?case by simp
next
  case (Cons r rs)
  show ?case
  proof (cases "P r")
    case True
    with Cons.prems show ?thesis by auto
  next
    case False
    with Cons.prems obtain rs'' where u: "update_first P f rs = Some rs''" and r: "rs' = r # rs''"
      by (auto split: option.splits)
    from Cons.IH [OF u Cons.prems(2)] r False show ?thesis by simp
  qed
qed

lemma update_existing_same:
  "same_title_and_source item ds r \<Longrightarrow> same_title_and_source item ds (update_existing now item r)"
  by (simp add: same_title_and_source_def update_existing_def)

lemma new_feed_item_same:
  "item_title item = Some t \<Longrightarrow> same_title_and_source item ds (new_feed_item now ds ci item)"
  by (simp add: same_title_and_source_def new_feed_item_def Let_def)

lemma save_single:
  "save_feed_items af now table [item] ds ci =
     (case update_first (same_title_and_source item ds) (update_existing now item) table of
        Some rows \<Rightarrow> (rows, \<lparr>sc_created = 0, sc_updated = 1\<rparr>)
      | None \<Rightarrow> (table @ [new_feed_item now ds ci item], \<lparr>sc_created = 1, sc_updated = 0\<rparr>))"
  by (simp add: save_feed_items_def Let_def split: option.splits)

lemma saved_item_found:
  assumes "item_title item = Some t"
  shows "find (same_title_and_source item ds) (fst (save_feed_items af now table [item] ds ci)) \<noteq> None"
proof (cases "update_first (same_title_and_source item ds) (update_existing now item) table")
  case None
  then show ?thesis
    using new_feed_item_same [OF assms, of ds now ci]
    by (simp add: save_single find_append split: option.splits)
next
  case (Some rows)
  from update_first_Some_find [OF Some update_existing_same]
  show ?thesis using Some by (simp add: save_single)
qed

lemma save_existing:
  assumes "find (same_title_and_source item ds) table \<noteq> None"
  shows "snd (save_feed_items af now table [item] ds ci) = \<lparr>sc_created = 0, sc_updated = 1\<rparr>"
proof -
  from assms have "update_first (same_title_and_source item ds) (update_existing now item) table \<noteq> None"
    by (simp add: update_first_None_iff)
  then show ?thesis by (auto simp: save_single)
qed

lemma save_fresh:
  assumes "find (same_title_and_source item ds) table = None"
  shows "save_feed_items af now table [item] ds ci =
           (table @ [new_feed_item now ds ci item], \<lparr>sc_created = 1, sc_updated = 0\<rparr>)"
proof -
  from assms have "update_first (same_title_and_source item ds) (update_existing now item) table = None"
    by (simp add: update_first_None_iff)
  then show ?thesis by (simp add: save_single)
qed

lemma save_two_fresh:
  assumes t1: "item_title i1 = Some t1" and t2: "item_title i2 = Some t2" and ne: "t1 \<noteq> t2"
    and f1: "find (same_title_and_source i1 ds) table = None"
    and f2: "find (same_title_and_source i2 ds) table = None"
  shows "save_feed_items af now table [i1, i2] ds ci =
           (table @ [new_feed_item now ds ci i1, new_feed_item now ds ci i2],
            \<lparr>sc_created = 2, sc_updated = 0\<rparr>)"
proof -
  have u1: "update_first (same_title_and_source i1 ds) (update_existing now i1) table = None"
    using f1 by (simp add: update_first_None_iff)
  have n: "\<not> same_title_and_source i2 ds (new_feed_item now ds ci i1)"
    using t1 t2 ne by (simp add: same_title_and_source_def new_feed_item_def Let_def)
  have u2: "update_first (same_title_and_source i2 ds) (update_existing now i2) table = None"
    using f2 by (simp add: update_first_None_iff)
  have u3: "update_first (same_title_and_source i2 ds) (update_existing now i2)
              (table @ [new_feed_item now ds ci i1]) = None"
    using f2 n by (simp add: update_first_None_iff find_append)
  show ?thesis
    by (cases af) (simp_all add: save_feed_items_def u1 u2 u3)
qed

text \<open>
  C1. For every data source, every session setting, every table and every candidate
  item with a title: a second save of the same item for the same data source counts
  one update and no creation; the first save counts one creation and no update when
  no row of that title and data source is stored yet; and one save of two items with
  distinct titles, neither stored yet, counts two creations and no update.
\<close>

theorem save_same_item_twice:
  assumes "item_title item = Some t"
  shows "snd (save_feed_items af now2
                (fst (save_feed_items af now1 table [item] ds ci1)) [item] ds ci2)
           = \<lparr>sc_created = 0, sc_updated = 1\<rparr>
         \<and> (find (same_title_and_source item ds) table = None
            \<longrightarrow> snd (save_feed_items af now1 table [item] ds ci1)
                  = \<lparr>sc_created = 1, sc_updated = 0\<rparr>)
         \<and> (item_title item2 = Some t2 \<and> t \<noteq> t2
              \<and> find (same_title_and_source item ds) table = None
              \<and> find (same_title_and_source item2 ds) table = None
            \<longrightarrow> snd (save_feed_items af now1 table [item, item2] ds ci1)
                  = \<lparr>sc_created = 2, sc_updated = 0\<rparr>)"
proof -
  have "snd (save_feed_items af now2
                (fst (save_feed_items af now1 table [item] ds ci1)) [item] ds ci2)
           = \<lparr>sc_created = 0, sc_updated = 1\<rparr>"
    using saved_item_found [OF assms] by (rule save_existing)
  moreover have "snd (save_feed_items af now1 table [item] ds ci1)
                  = \<lparr>sc_created = 1, sc_updated = 0\<rparr>"
    if "find (same_title_and_source item ds) table = None"
    using save_fresh [OF that] by simp
  moreover have "snd (save_feed_items af now1 table [item, item2] ds ci1)
                  = \<lparr>sc_created = 2, sc_updated = 0\<rparr>"
    if "item_title item2 = Some t2" and "t \<noteq> t2"
      and "find (same_title_and_source item ds) table = None"
      and "find (same_title_and_source item2 ds) table = None"
    using save_two_fresh [OF assms that] by simp
  ultimately show ?thesis by blast
qed

theorem save_same_item_twice_witness:
  "item_title titled_item = Some ''Title''
   \<and> item_title other_item = Some ''Other''
   \<and> find (same_title_and_source titled_item perplexity_source) [] = None
   \<and> find (same_title_and_source other_item perplexity_source) [] = None
   \<and> snd (save_feed_items True 0 [] [titled_item] perplexity_source None)
       = \<lparr>sc_created = 1, sc_updated = 0\<rparr>
   \<and> snd (save_feed_items True 9
            (fst (save_feed_items True 0 [] [titled_item] perplexity_source None))
            [titled_item] perplexity_source None)
       = \<lparr>sc_created = 0, sc_updated = 1\<rparr>
   \<and> snd (save_feed_items True 0 [] [titled_item, other_item] perplexity_source None)
       = \<lparr>sc_created = 2, sc_updated = 0\<rparr>"
proof -
  have h1: "item_title titled_item = Some ''Title''" by (simp add: titled_item_def)
  have h2: "item_title other_item = Some ''Other''" by (simp add: other_item_def)
  have h3: "''Title'' \<noteq> ''Other''" by simp
  have h4: "find (same_title_and_source titled_item perplexity_source) [] = None" by simp
  have h5: "find (same_title_and_source other_item perplexity_source) [] = None" by simp
  from h1 h2 h3 h4 h5
    save_same_item_twice [OF h1, of True 9 0 "[]" perplexity_source None None other_item "''Other''"]
  show ?thesis by blast
qed

lemma save_loop_titleless:
  assumes "\<forall>r \<in> set (rows @ pending). fi_data_source_id r = ds_id ds \<longrightarrow> fi_title r \<noteq> None"
    and "\<forall>it \<in> set items. item_title it = None"
  shows "save_loop af now ds ci items rows pending c u =
           (rows @ pending @ map (new_feed_item now ds ci) items,
            \<lparr>sc_created = c + int (length items), sc_updated = u\<rparr>)"
  using assms
proof (induction items arbitrary: rows pending c u)
  case Nil
  then show ?case by simp
next
  case (Cons item items)
  let ?new = "new_feed_item now ds ci item"
  let ?rows1 = "if af then rows @ pending else rows"
  let ?pending1 = "if af then [] else pending"
  have t: "item_title item = None" using Cons.prems(2) by simp
  have "find (same_title_and_source item ds) ?rows1 = None"
    using Cons.prems(1) t by (auto simp: find_None_iff same_title_and_source_def)
  then have u: "update_first (same_title_and_source item ds) (update_existing now item) ?rows1 = None"
    by (simp add: update_first_None_iff)
  have new: "fi_title ?new \<noteq> None"
    by (simp add: new_feed_item_def Let_def)
  have inv: "\<forall>r \<in> set (?rows1 @ (?pending1 @ [?new])). fi_data_source_id r = ds_id ds \<longrightarrow> fi_title r \<noteq> None"
    using Cons.prems(1) new by auto
  have rest: "\<forall>it \<in> set items. item_title it = None" using Cons.prems(2) by simp
  have "save_loop af now ds ci (item # items) rows pending c u =
        save_loop af now ds ci items ?rows1 (?pending1 @ [?new]) (c + 1) u"
    using u by (simp add: Let_def)
  also have "\<dots> = (?rows1 @ (?pending1 @ [?new]) @ map (new_feed_item now ds ci) items,
            \<lparr>sc_created = (c + 1) + int (length items), sc_updated = u\<rparr>)"
    by (rule Cons.IH [OF inv rest])
  finally show ?case by simp
qed

lemma update_first_keys:
  assumes "update_first P f rs = Some rs'" and "\<And>r. row_key (f r) = row_key r"
  shows "map row_key rs' = map row_key rs"
  using assms(1)
proof (induction rs arbitrary: rs')
  case Nil
  then show ?case by simp
next
  case (Cons r rs)
  show ?case
  proof (cases "P r")
    case True
    with Cons.prems assms(2) show ?thesis by auto
  next
    case False
    with Cons.prems obtain rs'' where u: "update_first P f rs = Some rs''" and r: "rs' = r # rs''"
      by (auto split: option.splits)
    from Cons.IH [OF u] r show ?thesis by simp
  qed
qed

lemma update_existing_key: "row_key (update_existing now item r) = row_key r"
  by (simp add: row_key_def update_existing_def)

lemma untitled_rows_keys:
  "length (untitled_rows ds rs) = length (filter (\<lambda>k. k = (Some ''Untitled'', ds_id ds)) (map row_key rs))"
  by (induction rs) (simp_all add: untitled_rows_def row_key_def)

lemma no_null_keys:
  "(\<forall>r \<in> set rs. fi_data_source_id r = ds_id ds \<longrightarrow> fi_title r \<noteq> None)
     \<longleftrightarrow> (None, ds_id ds) \<notin> set (map row_key rs)"
  by (induction rs) (auto simp: row_key_def)

lemma new_feed_item_key:
  "row_key (new_feed_item now ds ci item) =
     (Some (case item_title item of None \<Rightarrow> ''Untitled'' | Some t \<Rightarrow> t), ds_id ds)"
  by (simp add: row_key_def new_feed_item_def Let_def)

lemma titleless_step:
  assumes "(None, ds_id ds) \<notin> set (map row_key (rows @ pending))" and "item_title item = None"
  shows "save_loop af now ds ci (item # rest) rows pending c u =
           save_loop af now ds ci rest (if af then rows @ pending else rows)
             ((if af then [] else pending) @ [new_feed_item now ds ci item]) (c + 1) u"
proof -
  have "find (same_title_and_source item ds) (if af then rows @ pending else rows) = None"
    using assms by (auto simp: find_None_iff same_title_and_source_def row_key_def image_iff)
  then have "update_first (same_title_and_source item ds) (update_existing now item)
               (if af then rows @ pending else rows) = None"
    by (simp add: update_first_None_iff)
  then show ?thesis by (simp add: Let_def)
qed

lemma save_loop_mixed:
  assumes "(None, ds_id ds) \<notin> set (map row_key (rows @ pending))"
  shows "(None, ds_id ds) \<notin> set (map row_key (fst (save_loop af now ds ci items rows pending c u)))
       \<and> sc_created (snd (save_loop af now ds ci items rows pending c u))
           + sc_updated (snd (save_loop af now ds ci items rows pending c u))
           = c + u + int (length items)
       \<and> c + int (length (titleless items))
           \<le> sc_created (snd (save_loop af now ds ci items rows pending c u))
       \<and> u \<le> sc_updated (snd (save_loop af now ds ci items rows pending c u))
       \<and> length (untitled_rows ds (rows @ pending)) + length (titleless items)
           \<le> length (untitled_rows ds (fst (save_loop af now ds ci items rows pending c u)))
       \<and> int (length (fst (save_loop af now ds ci items rows pending c u)))
           = int (length (rows @ pending))
             + (sc_created (snd (save_loop af now ds ci items rows pending c u)) - c)"
  using assms
proof (induction items arbitrary: rows pending c u)
  case Nil
  then show ?case by (simp add: titleless_def)
next
  case (Cons item items)
  let ?rows1 = "if af then rows @ pending else rows"
  let ?pending1 = "if af then [] else pending"
  let ?new = "new_feed_item now ds ci item"
  have same: "?rows1 @ ?pending1 = rows @ pending" by simp
  show ?case
  proof (cases "update_first (same_title_and_source item ds) (update_existing now item) ?rows1")
    case None
    have step: "save_loop af now ds ci (item # items) rows pending c u =
                save_loop af now ds ci items ?rows1 (?pending1 @ [?new]) (c + 1) u"
      using None by (simp add: Let_def)
    have inv: "(None, ds_id ds) \<notin> set (map row_key (?rows1 @ (?pending1 @ [?new])))"
      using Cons.prems by (auto simp: new_feed_item_key)
    have cnt: "length (untitled_rows ds (rows @ pending)) + length (titleless (item # items))
                 \<le> length (untitled_rows ds (?rows1 @ (?pending1 @ [?new]))) + length (titleless items)"
      by (cases "item_title item")
         (auto simp: untitled_rows_def titleless_def new_feed_item_def Let_def)
    have len: "length (?rows1 @ (?pending1 @ [?new])) = length (rows @ pending) + 1"
      by simp
    from Cons.IH [OF inv, of "c + 1" u] cnt len show ?thesis
      unfolding step
      by (cases "item_title item") (simp_all add: titleless_def)
  next
    case (Some rows2)
    have t: "item_title item \<noteq> None"
    proof
      assume n: "item_title item = None"
      have "find (same_title_and_source item ds) ?rows1 = None"
        using Cons.prems n
        by (auto simp: find_None_iff same_title_and_source_def row_key_def image_iff)
      then have "update_first (same_title_and_source item ds) (update_existing now item) ?rows1 = None"
        by (simp add: update_first_None_iff)
      with Some show False by simp
    qed
    have step: "save_loop af now ds ci (item # items) rows pending c u =
                save_loop af now ds ci items rows2 ?pending1 c (u + 1)"
      using Some by (simp add: Let_def)
    have keys: "map row_key rows2 = map row_key ?rows1"
      using Some by (rule update_first_keys) (rule update_existing_key)
    have keys': "map row_key (rows2 @ ?pending1) = map row_key (rows @ pending)"
      using keys same by (metis map_append)
    have inv: "(None, ds_id ds) \<notin> set (map row_key (rows2 @ ?pending1))"
      using Cons.prems keys' by simp
    have cnt: "length (untitled_rows ds (rows2 @ ?pending1)) = length (untitled_rows ds (rows @ pending))"
      using keys' by (simp only: untitled_rows_keys)
    have len: "length (rows2 @ ?pending1) = length (rows @ pending)"
      using keys' by (metis length_map)
    have tl: "titleless (item # items) = titleless items"
      using t by (simp add: titleless_def)
    from Cons.IH [OF inv, of c "u + 1"] cnt len show ?thesis
      unfolding step tl by simp
  qed
qed

text \<open>
  C10. When no stored row of the data source has a NULL title (every row the upserter
  creates has a title, \<open>Untitled\<close> by default), a candidate without a title is never
  found by the existence lookup, in whatever batch it comes and whatever the other
  candidates of the batch are. At every state of the loop such a candidate takes the
  create branch: one more pending row, with title \<open>Untitled\<close> and the data source's id,
  one more creation, no update. So for every batch the creations are at least the
  candidates without a title, the updates at most the candidates with one, and the
  stored \<open>Untitled\<close> rows of the data source grow by at least one per candidate without
  a title. The table after the save again has no NULL title for the data source, so
  the same holds for every later save: such rows accumulate. A batch of candidates
  without titles only creates one row per candidate and updates none.
\<close>

theorem titleless_items_always_created:
  assumes "\<forall>r \<in> set table. fi_data_source_id r = ds_id ds \<longrightarrow> fi_title r \<noteq> None"
  shows "sc_created (snd (save_feed_items af now table items ds ci))
           + sc_updated (snd (save_feed_items af now table items ds ci)) = int (length items)
         \<and> int (length (titleless items)) \<le> sc_created (snd (save_feed_items af now table items ds ci))
         \<and> sc_updated (snd (save_feed_items af now table items ds ci))
             \<le> int (length items) - int (length (titleless items))
         \<and> length (untitled_rows ds table) + length (titleless items)
             \<le> length (untitled_rows ds (fst (save_feed_items af now table items ds ci)))
         \<and> int (length (fst (save_feed_items af now table items ds ci)))
             = int (length table) + sc_created (snd (save_feed_items af now table items ds ci))
         \<and> (\<forall>r \<in> set (fst (save_feed_items af now table items ds ci)).
               fi_data_source_id r = ds_id ds \<longrightarrow> fi_title r \<noteq> None)
         \<and> (item_title item = None
             \<longrightarrow> fi_title (new_feed_item now ds ci item) = Some ''Untitled''
                 \<and> fi_data_source_id (new_feed_item now ds ci item) = ds_id ds)
         \<and> ((\<forall>r \<in> set (rows @ pending). fi_data_source_id r = ds_id ds \<longrightarrow> fi_title r \<noteq> None)
               \<and> item_title item = None
             \<longrightarrow> save_loop af now ds ci (item # rest) rows pending c u =
                   save_loop af now ds ci rest (if af then rows @ pending else rows)
                     ((if af then [] else pending) @ [new_feed_item now ds ci item]) (c + 1) u)
         \<and> ((\<forall>it \<in> set items. item_title it = None)
             \<longrightarrow> save_feed_items af now table items ds ci =
                   (table @ map (new_feed_item now ds ci) items,
                    \<lparr>sc_created = int (length items), sc_updated = 0\<rparr>))"
proof -
  let ?res = "save_feed_items af now table items ds ci"
  have "(None, ds_id ds) \<notin> set (map row_key table)"
    using assms no_null_keys [of table ds] by blast
  then have inv: "(None, ds_id ds) \<notin> set (map row_key (table @ []))"
    by simp
  note m = save_loop_mixed [OF inv, of af now ci items 0 0, folded save_feed_items_def]
  have a: "sc_created (snd ?res) + sc_updated (snd ?res) = int (length items)"
    using m by simp
  have b: "int (length (titleless items)) \<le> sc_created (snd ?res)"
    using m by simp
  have c: "sc_updated (snd ?res) \<le> int (length items) - int (length (titleless items))"
    using a b by linarith
  have d: "length (untitled_rows ds table) + length (titleless items)
             \<le> length (untitled_rows ds (fst ?res))"
    using m by simp
  have e: "int (length (fst ?res)) = int (length table) + sc_created (snd ?res)"
    using m by simp
  have "(None, ds_id ds) \<notin> set (map row_key (fst ?res))"
    using m by simp
  then have f: "\<forall>r \<in> set (fst ?res). fi_data_source_id r = ds_id ds \<longrightarrow> fi_title r \<noteq> None"
    using no_null_keys [of "fst ?res" ds] by blast
  have g: "fi_title (new_feed_item now ds ci item) = Some ''Untitled''
           \<and> fi_data_source_id (new_feed_item now ds ci item) = ds_id ds"
    if "item_title item = None"
    using that by (simp add: new_feed_item_def Let_def)
  have h: "save_loop af now ds ci (item # rest) rows pending c u =
                   save_loop af now ds ci rest (if af then rows @ pending else rows)
                     ((if af then [] else pending) @ [new_feed_item now ds ci item]) (c + 1) u"
    if "\<forall>r \<in> set (rows @ pending). fi_data_source_id r = ds_id ds \<longrightarrow> fi_title r \<noteq> None"
      and "item_title item = None"
  proof -
    from that(1) have "(None, ds_id ds) \<notin> set (map row_key (rows @ pending))"
      using no_null_keys [of "rows @ pending" ds] by blast
    then show ?thesis using that(2) by (rule titleless_step)
  qed
  have i: "?res = (table @ map (new_feed_item now ds ci) items,
                    \<lparr>sc_created = int (length items), sc_updated = 0\<rparr>)"
    if "\<forall>it \<in> set items. item_title it = None"
    using save_loop_titleless [of table "[]" ds items af now ci 0 0] assms that
    by (simp add: save_feed_items_def)
  from a b c d e f g h i show ?thesis by blast
qed

lemma mixed_batch_saved:
  "save_feed_items False 0 [new_feed_item 0 perplexity_source None titleless_item]
     mixed_batch perplexity_source None =
   ([new_feed_item 0 perplexity_source None titleless_item,
     new_feed_item 0 perplexity_source None titleless_item,
     new_feed_item 0 perplexity_source None titled_item,
     new_feed_item 0 perplexity_source None titleless_item],
    \<lparr>sc_created = 3, sc_updated = 0\<rparr>)"
  by (simp add: save_feed_items_def mixed_batch_def same_title_and_source_def
        new_feed_item_def Let_def titleless_item_def titled_item_def)

theorem titleless_items_always_created_witness:
  "length (titleless mixed_batch) = 2
   \<and> length (untitled_rows perplexity_source [new_feed_item 0 perplexity_source None titleless_item]) = 1
   \<and> length (untitled_rows perplexity_source [new_feed_item 0 perplexity_source None titleless_item])
       + length (titleless mixed_batch)
       \<le> length (untitled_rows perplexity_source
            (fst (save_feed_items False 0 [new_feed_item 0 perplexity_source None titleless_item]
                   mixed_batch perplexity_source None)))
   \<and> snd (save_feed_items False 0 [new_feed_item 0 perplexity_source None titleless_item]
            mixed_batch perplexity_source None) = \<lparr>sc_created = 3, sc_updated = 0\<rparr>
   \<and> length (untitled_rows perplexity_source
        (fst (save_feed_items False 0 [new_feed_item 0 perplexity_source None titleless_item]
               mixed_batch perplexity_source None))) = 3"
proof -
  let ?t = "[new_feed_item 0 perplexity_source None titleless_item]"
  have h: "\<forall>r \<in> set ?t. fi_data_source_id r = ds_id perplexity_source \<longrightarrow> fi_title r \<noteq> None"
    by (simp add: new_feed_item_def Let_def)
  have n: "length (titleless mixed_batch) = 2"
    by (simp add: titleless_def mixed_batch_def titleless_item_def titled_item_def)
  have u1: "length (untitled_rows perplexity_source ?t) = 1"
    by (simp add: untitled_rows_def new_feed_item_def Let_def titleless_item_def)
  have u3: "length (untitled_rows perplexity_source
        (fst (save_feed_items False 0 ?t mixed_batch perplexity_source None))) = 3"
    unfolding mixed_batch_saved
    by (simp add: untitled_rows_def new_feed_item_def Let_def titleless_item_def titled_item_def)
  from titleless_items_always_created [OF h, of False 0 mixed_batch None] n u1 u3
    mixed_batch_saved
  show ?thesis by simp
qed

subsection \<open>Job orchestrator: what the loops leave untouched\<close>

lemma get_data_source_frame:
  "w_ingestion_jobs (snd (get_data_source env w)) = w_ingestion_jobs w
   \<and> w_open_sessions (snd (get_data_source env w)) = w_open_sessions w
   \<and> w_progress (snd (get_data_source env w)) = w_progress w"
  by (simp add: get_data_source_def Let_def split: option.splits)

lemma query_perplexity_frame:
  "w_ingestion_jobs (snd (query_perplexity env w q m)) = w_ingestion_jobs w
   \<and> w_open_sessions (snd (query_perplexity env w q m)) = w_open_sessions w"
  by (simp add: query_perplexity_def Let_def split: http_outcome.splits)

lemma run_queries_frame:
  "w_ingestion_jobs (snd (run_queries env ds n qs i w c u)) = w_ingestion_jobs w
   \<and> w_open_sessions (snd (run_queries env ds n qs i w c u)) = w_open_sessions w"
proof (induction qs arbitrary: i w c u)
  case Nil
  then show ?case by simp
next
  case (Cons q qs)
  show ?case
  proof (cases "query_and_category q")
    case (Inl e)
    then show ?thesis by simp
  next
    case (Inr qc)
    obtain query d where qc: "qc = (query, d)" by (cases qc)
    let ?w1 = "update_state (QueryProgress query (i + 1) n (category_name_of (Some d))) w"
    obtain r w2 where qp: "query_perplexity env ?w1 query default_model = (r, w2)"
      by (cases "query_perplexity env ?w1 query default_model")
    have f: "w_ingestion_jobs w2 = w_ingestion_jobs w \<and> w_open_sessions w2 = w_open_sessions w"
      using query_perplexity_frame [of env ?w1 query default_model] qp
      by (simp add: update_state_def)
    show ?thesis
    proof (cases r)
      case (Inl e)
      with Inr qc qp f show ?thesis by simp
    next
      case r: (Inr response)
      show ?thesis
      proof (cases "truthy response")
        case True
        with Inr qc qp r f Cons.IH show ?thesis by (simp add: Let_def)
      next
        case False
        with Inr qc qp r f Cons.IH show ?thesis by simp
      qed
    qed
  qed
qed

lemma run_users_frame:
  "w_ingestion_jobs (snd (run_users wait n us w c u p)) = w_ingestion_jobs w
   \<and> w_open_sessions (snd (run_users wait n us w c u p)) = w_open_sessions w"
proof (induction us arbitrary: w c u p)
  case Nil
  then show ?case by simp
next
  case (Cons a us)
  then show ?case
    by (simp add: Let_def update_state_def split: sub_outcome.splits option.splits)
qed

lemma ingest_after_resolution:
  assumes ds: "get_data_source env (open_session w) = (Some data_source, w1)"
    and qs: "qs = resolve_queries (w_user_categories w1) user_id queries"
    and loop: "run_queries env data_source (length qs) qs 0
                 (add_job (single_job env data_source user_id qs) w1) 0 0 = (r, w3)"
  shows "ingest_perplexity env w user_id queries =
           (case r of
              Inr (total_created, total_updated) \<Rightarrow>
                (Returned (SingleCompleted total_created total_updated (length qs) user_id),
                 close_session (store_job (length (w_ingestion_jobs w1))
                   (complete_job (env_now env) total_created total_updated
                      (single_job env data_source user_id qs)) w3))
            | Inl e \<Rightarrow>
                (RetryRequested 60 3,
                 close_session (store_job (length (w_ingestion_jobs w1))
                   (fail_job (env_now env) e (single_job env data_source user_id qs)) w3)))"
  using ds loop unfolding qs
  by (simp add: ingest_perplexity_def Let_def split: sum.splits prod.splits)

lemma resolved_frame:
  assumes "get_data_source env (open_session w) = (r, w1)"
  shows "w_ingestion_jobs w1 = w_ingestion_jobs w" and "w_open_sessions w1 = w_open_sessions w + 1"
  using get_data_source_frame [of env "open_session w"] assms
  by (simp_all add: open_session_def)

lemma example_resolved:
  "get_data_source example_env (open_session example_world) =
     (Some perplexity_source, open_session example_world)"
  by (simp add: get_data_source_def open_session_def example_world_def perplexity_source_def)

lemma inactive_unresolved:
  "get_data_source example_env (open_session inactive_world) = (None, open_session inactive_world)"
  by (simp add: get_data_source_def open_session_def inactive_world_def example_world_def
        perplexity_source_def)

lemma example_users:
  "users_with_categories (open_session example_world) = [\<lparr>usr_id = 3, usr_username = ''ann''\<rparr>]"
  by (simp add: users_with_categories_def open_session_def example_world_def football_category_def)

lemma example_opened:
  "w_ingestion_jobs (open_session example_world) = []"
  "w_open_sessions (open_session inactive_world) = 1"
  "w_open_sessions inactive_world = 0"
  "w_user_categories (open_session example_world) = [football_category]"
  by (simp_all add: open_session_def example_world_def inactive_world_def)

lemma get_data_source_None_iff:
  "fst (get_data_source env w) = None \<longleftrightarrow>
     (case find (\<lambda>d. ds_name d = ''perplexity'') (w_data_sources w) of
        Some data_source \<Rightarrow> \<not> ds_is_active data_source
      | None \<Rightarrow> \<not> env_default_is_active env)"
  by (simp add: get_data_source_def Let_def split: option.splits)

subsection \<open>Job orchestrator: an exception in the loop of a single run\<close>

text \<open>
  C8. In a single run whose data source resolves and whose loop over the queries is
  left by an exception \<open>e\<close>, the outcome is the retry request with a countdown of 60
  seconds and at most 3 retries, and the run's job record, the one row added to the
  job table, has status \<open>failed\<close>, the completion timestamp and the error message
  \<open>str(e)\<close>.
\<close>

theorem loop_exception_fails_job:
  assumes ds: "get_data_source env (open_session w) = (Some data_source, w1)"
    and qs: "qs = resolve_queries (w_user_categories w1) user_id queries"
    and loop: "fst (run_queries env data_source (length qs) qs 0
                 (add_job (single_job env data_source user_id qs) w1) 0 0) = Inl e"
  shows "fst (ingest_perplexity env w user_id queries) = RetryRequested 60 3
         \<and> w_ingestion_jobs (snd (ingest_perplexity env w user_id queries)) =
             w_ingestion_jobs w @
               [(single_job env data_source user_id qs)
                  \<lparr>job_status := ''failed'',
                   job_completed_at := Some (env_now env),
                   job_error_message := Some (str_exception e)\<rparr>]"
proof -
  let ?job = "single_job env data_source user_id qs"
  obtain r w3 where run: "run_queries env data_source (length qs) qs 0 (add_job ?job w1) 0 0 = (r, w3)"
    by (cases "run_queries env data_source (length qs) qs 0 (add_job ?job w1) 0 0")
  with loop have r: "r = Inl e" by simp
  have j3: "w_ingestion_jobs w3 = w_ingestion_jobs w @ [?job]"
    using run_queries_frame [of env data_source "length qs" qs 0 "add_job ?job w1" 0 0] run
      resolved_frame(1) [OF ds]
    by (simp add: add_job_def)
  have l: "length (w_ingestion_jobs w1) = length (w_ingestion_jobs w)"
    using resolved_frame(1) [OF ds] by simp
  show ?thesis
    using ingest_after_resolution [OF ds qs run] r j3 l
    by (simp add: close_session_def store_job_def fail_job_def)
qed

theorem loop_exception_fails_job_witness:
  "get_data_source example_env (open_session example_world)
     = (Some perplexity_source, open_session example_world)
   \<and> [query_without_text]
       = resolve_queries (w_user_categories (open_session example_world)) None (Some [query_without_text])
   \<and> fst (run_queries example_env perplexity_source 1 [query_without_text] 0
            (add_job (single_job example_env perplexity_source None [query_without_text])
               (open_session example_world)) 0 0)
       = Inl (KeyError ''query'')
   \<and> fst (ingest_perplexity example_env example_world None (Some [query_without_text]))
       = RetryRequested 60 3
   \<and> map job_status
       (w_ingestion_jobs (snd (ingest_perplexity example_env example_world None (Some [query_without_text]))))
       = [''failed'']
   \<and> map job_completed_at
       (w_ingestion_jobs (snd (ingest_perplexity example_env example_world None (Some [query_without_text]))))
       = [Some 0]
   \<and> map job_error_message
       (w_ingestion_jobs (snd (ingest_perplexity example_env example_world None (Some [query_without_text]))))
       = [Some (str_exception (KeyError ''query''))]"
proof -
  have h1: "get_data_source example_env (open_session example_world)
     = (Some perplexity_source, open_session example_world)"
    by (rule example_resolved)
  have h2: "[query_without_text]
       = resolve_queries (w_user_categories (open_session example_world)) None (Some [query_without_text])"
    by (simp add: resolve_queries_def)
  have h3: "fst (run_queries example_env perplexity_source (length [query_without_text])
            [query_without_text] 0
            (add_job (single_job example_env perplexity_source None [query_without_text])
               (open_session example_world)) 0 0)
       = Inl (KeyError ''query'')"
    by (simp add: query_and_category_def query_without_text_def)
  have j: "w_ingestion_jobs example_world = []" "env_now example_env = 0"
    by (simp_all add: example_world_def example_env_def)
  from loop_exception_fails_job [OF h1 h2 h3] h1 h2 h3 j
  show ?thesis by simp
qed

subsection \<open>Job orchestrator: the session of a single run\<close>

text \<open>
  C9 fails on the early return: \<open>return {"error": ...}\<close> (source line 283) comes before
  the \<open>try\<close> whose \<open>finally\<close> closes the session, so the session opened by
  \<open>PerplexityRunner()\<close> is still open when the entry point returns. Here the run on a
  store with an inactive data source starts with no open session and ends with one.
\<close>

theorem early_return_keeps_session_open:
  "fst (ingest_perplexity example_env inactive_world None None)
     = Returned (ErrorResult ''Data source not found'')
   \<and> w_open_sessions inactive_world = 0
   \<and> w_open_sessions (snd (ingest_perplexity example_env inactive_world None None)) = 1"
  by (simp add: ingest_perplexity_def inactive_unresolved example_opened)

text \<open>On every path after the data source has resolved the session is closed.\<close>

lemma session_released_after_resolution:
  assumes "fst (get_data_source env (open_session w)) \<noteq> None"
  shows "w_open_sessions (snd (ingest_perplexity env w user_id queries)) = w_open_sessions w"
proof -
  from assms obtain data_source w1
    where ds: "get_data_source env (open_session w) = (Some data_source, w1)"
    by (cases "get_data_source env (open_session w)") auto
  define qs where "qs = resolve_queries (w_user_categories w1) user_id queries"
  let ?job = "single_job env data_source user_id qs"
  obtain r w3 where run: "run_queries env data_source (length qs) qs 0 (add_job ?job w1) 0 0 = (r, w3)"
    by (cases "run_queries env data_source (length qs) qs 0 (add_job ?job w1) 0 0")
  have "w_open_sessions w3 = w_open_sessions w + 1"
    using run_queries_frame [of env data_source "length qs" qs 0 "add_job ?job w1" 0 0] run
      resolved_frame(2) [OF ds]
    by (simp add: add_job_def)
  then show ?thesis
    using ingest_after_resolution [OF ds qs_def run]
    by (simp add: close_session_def store_job_def split: sum.splits prod.splits)
qed

subsection \<open>Job orchestrator: the fan-out over the users\<close>

lemma run_users_all_return:
  assumes "list_all (sub_returns wait) us"
  shows "fst (run_users wait n us w c u p) =
           Inr (c + sum_list (map fst (List.map_filter (sub_counts wait) us)),
                u + sum_list (map snd (List.map_filter (sub_counts wait) us)),
                p + length (List.map_filter (sub_counts wait) us))"
  using assms
proof (induction us arbitrary: w c u p)
  case Nil
  then show ?case by (simp add: List.map_filter_simps)
next
  case (Cons a us)
  from Cons.prems obtain r where r: "wait (usr_id a) = SubReturned r"
    by (auto simp: sub_returns_def split: sub_outcome.splits)
  from Cons.prems have rest: "list_all (sub_returns wait) us" by simp
  show ?case
  proof (cases "counts_of r")
    case None
    then show ?thesis
      using r Cons.IH [OF rest] by (simp add: Let_def List.map_filter_simps sub_counts_def)
  next
    case (Some cu)
    obtain c' u' where cu: "cu = (c', u')" by (cases cu)
    show ?thesis
      using r Some cu Cons.IH [OF rest]
      by (simp add: Let_def List.map_filter_simps sub_counts_def)
  qed
qed

lemma run_users_raise:
  assumes "list_all (sub_returns wait) us1" and "wait (usr_id user) = SubRaised e"
  shows "fst (run_users wait n (us1 @ user # us2) w c u p) = Inl e"
  using assms(1)
proof (induction us1 arbitrary: w c u p)
  case Nil
  then show ?case using assms(2) by (simp add: Let_def)
next
  case (Cons a us1)
  from Cons.prems obtain r where r: "wait (usr_id a) = SubReturned r"
    by (auto simp: sub_returns_def split: sub_outcome.splits)
  from Cons.prems have rest: "list_all (sub_returns wait) us1" by simp
  show ?case
    using r Cons.IH [OF rest] by (simp add: Let_def split: option.splits)
qed

lemma fanout_after_resolution:
  assumes ds: "get_data_source env (open_session w) = (Some data_source, w1)"
    and us: "us = users_with_categories w1"
    and loop: "run_users wait (length us) us (add_job (fanout_job env data_source (length us)) w1) 0 0 0
                 = (r, w3)"
  shows "ingest_perplexity_for_all_users env wait w =
           (case r of
              Inr (total_created, total_updated, users_processed) \<Rightarrow>
                (Returned (FanoutCompleted total_created total_updated users_processed (length us)),
                 close_session (store_job (length (w_ingestion_jobs w1))
                   (complete_job (env_now env) total_created total_updated
                      (fanout_job env data_source (length us))) w3))
            | Inl e \<Rightarrow>
                (RetryRequested 60 3,
                 close_session (store_job (length (w_ingestion_jobs w1))
                   (fail_job (env_now env) e (fanout_job env data_source (length us))) w3)))"
  using ds loop unfolding us
  by (simp add: ingest_perplexity_for_all_users_def Let_def split: sum.splits prod.splits)

lemma fanout_jobs:
  assumes ds: "get_data_source env (open_session w) = (Some data_source, w1)"
    and us: "us = users_with_categories w1"
  shows "fst (run_users wait (length us) us (add_job (fanout_job env data_source (length us)) w1) 0 0 0) = Inl e
         \<Longrightarrow> fst (ingest_perplexity_for_all_users env wait w) = RetryRequested 60 3
             \<and> w_ingestion_jobs (snd (ingest_perplexity_for_all_users env wait w)) =
                 w_ingestion_jobs w @ [fail_job (env_now env) e (fanout_job env data_source (length us))]"
    and "fst (run_users wait (length us) us (add_job (fanout_job env data_source (length us)) w1) 0 0 0)
           = Inr (c, u, p)
         \<Longrightarrow> fst (ingest_perplexity_for_all_users env wait w) = Returned (FanoutCompleted c u p (length us))
             \<and> w_ingestion_jobs (snd (ingest_perplexity_for_all_users env wait w)) =
                 w_ingestion_jobs w @ [complete_job (env_now env) c u (fanout_job env data_source (length us))]"
proof -
  let ?job = "fanout_job env data_source (length us)"
  obtain r w3 where run: "run_users wait (length us) us (add_job ?job w1) 0 0 0 = (r, w3)"
    by (cases "run_users wait (length us) us (add_job ?job w1) 0 0 0")
  have j3: "w_ingestion_jobs w3 = w_ingestion_jobs w @ [?job]"
    using run_users_frame [of wait "length us" us "add_job ?job w1" 0 0 0] run
      resolved_frame(1) [OF ds]
    by (simp add: add_job_def)
  have l: "length (w_ingestion_jobs w1) = length (w_ingestion_jobs w)"
    using resolved_frame(1) [OF ds] by simp
  show "fst (run_users wait (length us) us (add_job ?job w1) 0 0 0) = Inl e
         \<Longrightarrow> fst (ingest_perplexity_for_all_users env wait w) = RetryRequested 60 3
             \<and> w_ingestion_jobs (snd (ingest_perplexity_for_all_users env wait w)) =
                 w_ingestion_jobs w @ [fail_job (env_now env) e ?job]"
    using fanout_after_resolution [OF ds us run] run j3 l
    by (simp add: close_session_def store_job_def)
  show "fst (run_users wait (length us) us (add_job ?job w1) 0 0 0) = Inr (c, u, p)
         \<Longrightarrow> fst (ingest_perplexity_for_all_users env wait w) = Returned (FanoutCompleted c u p (length us))
             \<and> w_ingestion_jobs (snd (ingest_perplexity_for_all_users env wait w)) =
                 w_ingestion_jobs w @ [complete_job (env_now env) c u ?job]"
    using fanout_after_resolution [OF ds us run] run j3 l
    by (simp add: close_session_def store_job_def)
qed

text \<open>
  C2 fails for a sub-run that returns a result without counts: the guard
  \<open>if user_result and "created" in user_result\<close> has no \<open>else\<close>, so the fan-out skips
  that user and goes on. With one user whose sub-run returns the error result, the
  fan-out completes: zero users processed out of one, job status \<open>completed\<close>, no error
  message.
\<close>

theorem error_result_skipped_counterexample:
  "fst (ingest_perplexity_for_all_users example_env wait_error_result example_world)
     = Returned (FanoutCompleted 0 0 0 1)
   \<and> map job_status
       (w_ingestion_jobs (snd (ingest_perplexity_for_all_users example_env wait_error_result example_world)))
     = [''completed'']
   \<and> map job_error_message
       (w_ingestion_jobs (snd (ingest_perplexity_for_all_users example_env wait_error_result example_world)))
     = [None]"
  by (simp add: ingest_perplexity_for_all_users_def example_resolved example_users Let_def
        wait_error_result_def add_job_def store_job_def close_session_def complete_job_def
        fanout_job_def update_state_def example_opened)

text \<open>
  C2, as the code has it. With the data source resolved and \<open>us\<close> the users to visit:
  (1) when the wait for a user raises \<open>e\<close> (the timeout after five minutes, or the
  exception the sub-run ended with) and the waits for the users before it returned, the
  fan-out requests the retry (60 seconds, 3 retries) and its job record has status
  \<open>failed\<close>, the completion timestamp and the error message \<open>str(e)\<close>;
  (2) when every wait returns, the fan-out completes: a result without counts adds
  nothing and is not counted as a processed user, the others add their counts, and the
  job record has status \<open>completed\<close> with the totals.
\<close>

theorem fanout_raise_fails_no_counts_skipped:
  assumes ds: "get_data_source env (open_session w) = (Some data_source, w1)"
    and us: "us = users_with_categories w1"
    and cs: "cs = List.map_filter (sub_counts wait) us"
  shows "(us = us1 @ user # us2 \<and> list_all (sub_returns wait) us1 \<and> wait (usr_id user) = SubRaised e
          \<longrightarrow> fst (ingest_perplexity_for_all_users env wait w) = RetryRequested 60 3
              \<and> w_ingestion_jobs (snd (ingest_perplexity_for_all_users env wait w)) =
                  w_ingestion_jobs w @
                    [(fanout_job env data_source (length us))
                       \<lparr>job_status := ''failed'',
                        job_completed_at := Some (env_now env),
                        job_error_message := Some (str_exception e)\<rparr>])
         \<and> (list_all (sub_returns wait) us
          \<longrightarrow> fst (ingest_perplexity_for_all_users env wait w) =
                Returned (FanoutCompleted (sum_list (map fst cs)) (sum_list (map snd cs))
                            (length cs) (length us))
              \<and> w_ingestion_jobs (snd (ingest_perplexity_for_all_users env wait w)) =
                  w_ingestion_jobs w @
                    [(fanout_job env data_source (length us))
                       \<lparr>job_status := ''completed'',
                        job_completed_at := Some (env_now env),
                        job_items_created := Some (sum_list (map fst cs)),
                        job_items_updated := Some (sum_list (map snd cs))\<rparr>])"
proof -
  let ?job = "fanout_job env data_source (length us)"
  have a: "fst (ingest_perplexity_for_all_users env wait w) = RetryRequested 60 3
              \<and> w_ingestion_jobs (snd (ingest_perplexity_for_all_users env wait w)) =
                  w_ingestion_jobs w @ [fail_job (env_now env) e ?job]"
    if "us = us1 @ user # us2" and "list_all (sub_returns wait) us1"
      and "wait (usr_id user) = SubRaised e"
  proof -
    have "fst (run_users wait (length us) us (add_job ?job w1) 0 0 0) = Inl e"
      unfolding that(1) by (rule run_users_raise [OF that(2) that(3)])
    then show ?thesis by (rule fanout_jobs(1) [OF ds us])
  qed
  have b: "fst (ingest_perplexity_for_all_users env wait w) =
                Returned (FanoutCompleted (sum_list (map fst cs)) (sum_list (map snd cs))
                            (length cs) (length us))
              \<and> w_ingestion_jobs (snd (ingest_perplexity_for_all_users env wait w)) =
                  w_ingestion_jobs w @
                    [complete_job (env_now env) (sum_list (map fst cs)) (sum_list (map snd cs)) ?job]"
    if "list_all (sub_returns wait) us"
  proof -
    have "fst (run_users wait (length us) us (add_job ?job w1) 0 0 0) =
            Inr (sum_list (map fst cs), sum_list (map snd cs), length cs)"
      using run_users_all_return [OF that, of "length us" "add_job ?job w1" 0 0 0] cs by simp
    then show ?thesis by (rule fanout_jobs(2) [OF ds us])
  qed
  from a b show ?thesis
    by (simp add: fail_job_def complete_job_def)
qed

theorem fanout_raise_fails_no_counts_skipped_witness:
  "get_data_source example_env (open_session example_world)
     = (Some perplexity_source, open_session example_world)
   \<and> users_with_categories (open_session example_world) = [] @ \<lparr>usr_id = 3, usr_username = ''ann''\<rparr> # []
   \<and> wait_timeout 3 = SubRaised TimeoutError
   \<and> fst (ingest_perplexity_for_all_users example_env wait_timeout example_world) = RetryRequested 60 3
   \<and> map job_status
       (w_ingestion_jobs (snd (ingest_perplexity_for_all_users example_env wait_timeout example_world)))
       = [''failed'']
   \<and> map job_error_message
       (w_ingestion_jobs (snd (ingest_perplexity_for_all_users example_env wait_timeout example_world)))
       = [Some ''The operation timed out.'']
   \<and> list_all (sub_returns wait_error_result) (users_with_categories (open_session example_world))
   \<and> fst (ingest_perplexity_for_all_users example_env wait_error_result example_world)
       = Returned (FanoutCompleted 0 0 0 1)"
proof -
  let ?ann = "\<lparr>usr_id = 3, usr_username = ''ann''\<rparr>"
  have h1: "get_data_source example_env (open_session example_world)
     = (Some perplexity_source, open_session example_world)"
    by (rule example_resolved)
  have h2: "[] @ ?ann # [] = users_with_categories (open_session example_world)"
    by (simp add: example_users)
  have h3: "wait_timeout (usr_id ?ann) = SubRaised TimeoutError"
    by (simp add: wait_timeout_def)
  have h4: "list_all (sub_returns wait_error_result) ([] @ ?ann # [])"
    by (simp add: sub_returns_def wait_error_result_def)
  have c: "List.map_filter (sub_counts wait_error_result) ([] @ ?ann # []) = []"
    by (simp add: List.map_filter_simps sub_counts_def wait_error_result_def)
  have j: "w_ingestion_jobs example_world = []"
    by (simp add: example_world_def)
  have a: "fst (ingest_perplexity_for_all_users example_env wait_timeout example_world) = RetryRequested 60 3
         \<and> w_ingestion_jobs (snd (ingest_perplexity_for_all_users example_env wait_timeout example_world)) =
                  w_ingestion_jobs example_world @
                    [(fanout_job example_env perplexity_source (length ([] @ ?ann # [])))
                       \<lparr>job_status := ''failed'',
                        job_completed_at := Some (env_now example_env),
                        job_error_message := Some (str_exception TimeoutError)\<rparr>]"
    using fanout_raise_fails_no_counts_skipped
        [where wait = wait_timeout and ?us1.0 = "[]" and user = ?ann and ?us2.0 = "[]"
           and e = TimeoutError, OF h1 h2 refl]
      h3 by simp
  have b: "fst (ingest_perplexity_for_all_users example_env wait_error_result example_world)
       = Returned (FanoutCompleted 0 0 0 1)"
    using fanout_raise_fails_no_counts_skipped
        [where wait = wait_error_result and ?us1.0 = "[]" and user = ?ann and ?us2.0 = "[]"
           and e = TimeoutError, OF h1 h2 refl]
      h4 c by simp
  from a b h1 h2 h3 h4 j show ?thesis by simp
qed

subsection \<open>Job orchestrator: unresolved data source\<close>

lemma ingest_unresolved:
  assumes "fst (get_data_source env (open_session w)) = None"
  shows "ingest_perplexity env w user_id queries =
           (Returned (ErrorResult ''Data source not found''), snd (get_data_source env (open_session w)))"
    and "ingest_perplexity_for_all_users env wait w =
           (Returned (ErrorResult ''Data source not found''), snd (get_data_source env (open_session w)))"
  using assms
  by (cases "get_data_source env (open_session w)";
      simp add: ingest_perplexity_def ingest_perplexity_for_all_users_def)+

lemma ingest_resolved:
  assumes ds: "get_data_source env (open_session w) = (Some data_source, w1)"
  shows "fst (ingest_perplexity env w user_id queries) \<noteq> Returned (ErrorResult msg)
         \<and> length (w_ingestion_jobs (snd (ingest_perplexity env w user_id queries)))
             = length (w_ingestion_jobs w) + 1"
proof -
  define qs where "qs = resolve_queries (w_user_categories w1) user_id queries"
  let ?job = "single_job env data_source user_id qs"
  obtain r w3 where run: "run_queries env data_source (length qs) qs 0 (add_job ?job w1) 0 0 = (r, w3)"
    by (cases "run_queries env data_source (length qs) qs 0 (add_job ?job w1) 0 0")
  have "w_ingestion_jobs w3 = w_ingestion_jobs w @ [?job]"
    using run_queries_frame [of env data_source "length qs" qs 0 "add_job ?job w1" 0 0] run
      resolved_frame(1) [OF ds]
    by (simp add: add_job_def)
  then show ?thesis
    using ingest_after_resolution [OF ds qs_def run]
    by (simp add: close_session_def store_job_def split: sum.splits prod.splits)
qed

lemma fanout_resolved:
  assumes ds: "get_data_source env (open_session w) = (Some data_source, w1)"
  shows "fst (ingest_perplexity_for_all_users env wait w) \<noteq> Returned (ErrorResult msg)
         \<and> length (w_ingestion_jobs (snd (ingest_perplexity_for_all_users env wait w)))
             = length (w_ingestion_jobs w) + 1"
proof -
  define us where "us = users_with_categories w1"
  let ?job = "fanout_job env data_source (length us)"
  obtain r w3 where run: "run_users wait (length us) us (add_job ?job w1) 0 0 0 = (r, w3)"
    by (cases "run_users wait (length us) us (add_job ?job w1) 0 0 0")
  have "w_ingestion_jobs w3 = w_ingestion_jobs w @ [?job]"
    using run_users_frame [of wait "length us" us "add_job ?job w1" 0 0 0] run
      resolved_frame(1) [OF ds]
    by (simp add: add_job_def)
  then show ?thesis
    using fanout_after_resolution [OF ds us_def run]
    by (simp add: close_session_def store_job_def split: sum.splits prod.splits)
qed

lemma absent_resolved:
  "get_data_source example_env (open_session absent_world) =
     (Some (perplexity_source),
      (open_session absent_world)\<lparr>w_data_sources := [perplexity_source]\<rparr>)"
  by (simp add: get_data_source_def open_session_def absent_world_def example_world_def
        perplexity_source_def example_env_def next_id_def base_url_def Let_def)

text \<open>
  C7 fails for an absent data source: \<open>get_data_source\<close> creates the missing row
  (source lines 32-42) and returns it when it is active by the column default. On a
  store without any data source the single run returns no error result: it completes,
  and its job record and the new data source are stored.
\<close>

theorem absent_source_created_counterexample:
  "find (\<lambda>d. ds_name d = ''perplexity'') (w_data_sources absent_world) = None
   \<and> fst (ingest_perplexity example_env absent_world None (Some []))
       = Returned (SingleCompleted 0 0 0 None)
   \<and> map job_status
        (w_ingestion_jobs (snd (ingest_perplexity example_env absent_world None (Some []))))
       = [''completed'']
   \<and> w_data_sources (snd (ingest_perplexity example_env absent_world None (Some [])))
       = [perplexity_source]"
proof -
  have j: "w_ingestion_jobs (open_session absent_world) = []"
    by (simp add: open_session_def absent_world_def example_world_def)
  have f: "find (\<lambda>d. ds_name d = ''perplexity'') (w_data_sources absent_world) = None"
    by (simp add: absent_world_def)
  show ?thesis
    by (simp add: f ingest_perplexity_def absent_resolved resolve_queries_def Let_def add_job_def
          store_job_def close_session_def complete_job_def single_job_def j)
qed

text \<open>
  C7, as the code has it. The data source does not resolve exactly when its row is
  stored and inactive, or no row is stored and the row created in its place is inactive
  by the column default. Then both entry points return
  \<open>{"error": "Data source not found"}\<close> at once: no job record is created and no
  progress is reported. In every other case, an absent row that is created active
  among them, neither entry point returns that error result and each creates its job
  record.
\<close>

theorem data_source_unresolved:
  "(fst (get_data_source env (open_session w)) = None \<longleftrightarrow>
      (case find (\<lambda>d. ds_name d = ''perplexity'') (w_data_sources w) of
         Some data_source \<Rightarrow> \<not> ds_is_active data_source
       | None \<Rightarrow> \<not> env_default_is_active env))
   \<and> (fst (get_data_source env (open_session w)) = None
       \<longrightarrow> fst (ingest_perplexity env w user_id queries) = Returned (ErrorResult ''Data source not found'')
         \<and> w_ingestion_jobs (snd (ingest_perplexity env w user_id queries)) = w_ingestion_jobs w
         \<and> w_progress (snd (ingest_perplexity env w user_id queries)) = w_progress w
         \<and> fst (ingest_perplexity_for_all_users env wait w) = Returned (ErrorResult ''Data source not found'')
         \<and> w_ingestion_jobs (snd (ingest_perplexity_for_all_users env wait w)) = w_ingestion_jobs w
         \<and> w_progress (snd (ingest_perplexity_for_all_users env wait w)) = w_progress w)
   \<and> (fst (get_data_source env (open_session w)) \<noteq> None
       \<longrightarrow> fst (ingest_perplexity env w user_id queries) \<noteq> Returned (ErrorResult ''Data source not found'')
         \<and> length (w_ingestion_jobs (snd (ingest_perplexity env w user_id queries)))
             = length (w_ingestion_jobs w) + 1
         \<and> fst (ingest_perplexity_for_all_users env wait w) \<noteq> Returned (ErrorResult ''Data source not found'')
         \<and> length (w_ingestion_jobs (snd (ingest_perplexity_for_all_users env wait w)))
             = length (w_ingestion_jobs w) + 1)"
proof -
  have a: "fst (get_data_source env (open_session w)) = None \<longleftrightarrow>
      (case find (\<lambda>d. ds_name d = ''perplexity'') (w_data_sources w) of
         Some data_source \<Rightarrow> \<not> ds_is_active data_source
       | None \<Rightarrow> \<not> env_default_is_active env)"
    using get_data_source_None_iff [of env "open_session w"] by (simp add: open_session_def)
  have b: "fst (ingest_perplexity env w user_id queries) = Returned (ErrorResult ''Data source not found'')
         \<and> w_ingestion_jobs (snd (ingest_perplexity env w user_id queries)) = w_ingestion_jobs w
         \<and> w_progress (snd (ingest_perplexity env w user_id queries)) = w_progress w
         \<and> fst (ingest_perplexity_for_all_users env wait w) = Returned (ErrorResult ''Data source not found'')
         \<and> w_ingestion_jobs (snd (ingest_perplexity_for_all_users env wait w)) = w_ingestion_jobs w
         \<and> w_progress (snd (ingest_perplexity_for_all_users env wait w)) = w_progress w"
    if n: "fst (get_data_source env (open_session w)) = None"
    using get_data_source_frame [of env "open_session w"]
    by (simp add: ingest_unresolved [OF n] open_session_def)
  have c: "fst (ingest_perplexity env w user_id queries) \<noteq> Returned (ErrorResult ''Data source not found'')
         \<and> length (w_ingestion_jobs (snd (ingest_perplexity env w user_id queries)))
             = length (w_ingestion_jobs w) + 1
         \<and> fst (ingest_perplexity_for_all_users env wait w) \<noteq> Returned (ErrorResult ''Data source not found'')
         \<and> length (w_ingestion_jobs (snd (ingest_perplexity_for_all_users env wait w)))
             = length (w_ingestion_jobs w) + 1"
    if "fst (get_data_source env (open_session w)) \<noteq> None"
  proof -
    from that obtain data_source w1
      where ds: "get_data_source env (open_session w) = (Some data_source, w1)"
      by (cases "get_data_source env (open_session w)") auto
    from ingest_resolved [OF ds] fanout_resolved [OF ds] show ?thesis by blast
  qed
  from a b c show ?thesis by blast
qed

theorem data_source_unresolved_witness:
  "fst (get_data_source example_env (open_session inactive_world)) = None
   \<and> fst (ingest_perplexity example_env inactive_world (Some 3) None)
       = Returned (ErrorResult ''Data source not found'')
   \<and> w_ingestion_jobs (snd (ingest_perplexity example_env inactive_world (Some 3) None)) = []
   \<and> fst (ingest_perplexity_for_all_users example_env wait_timeout inactive_world)
       = Returned (ErrorResult ''Data source not found'')
   \<and> w_ingestion_jobs (snd (ingest_perplexity_for_all_users example_env wait_timeout inactive_world)) = []
   \<and> fst (get_data_source example_env (open_session absent_world)) \<noteq> None
   \<and> length (w_ingestion_jobs (snd (ingest_perplexity example_env absent_world (Some 3) None))) = 1
   \<and> length (w_ingestion_jobs (snd (ingest_perplexity_for_all_users example_env wait_timeout absent_world))) = 1"
proof -
  have h: "fst (get_data_source example_env (open_session inactive_world)) = None"
    by (simp add: inactive_unresolved)
  have j: "w_ingestion_jobs inactive_world = []"
    by (simp add: inactive_world_def example_world_def)
  have h': "fst (get_data_source example_env (open_session absent_world)) \<noteq> None"
    by (simp add: absent_resolved)
  have j': "w_ingestion_jobs absent_world = []"
    by (simp add: absent_world_def example_world_def)
  from data_source_unresolved [of example_env inactive_world "Some 3" None wait_timeout] h j
  have a: "fst (ingest_perplexity example_env inactive_world (Some 3) None)
       = Returned (ErrorResult ''Data source not found'')
   \<and> w_ingestion_jobs (snd (ingest_perplexity example_env inactive_world (Some 3) None)) = []
   \<and> fst (ingest_perplexity_for_all_users example_env wait_timeout inactive_world)
       = Returned (ErrorResult ''Data source not found'')
   \<and> w_ingestion_jobs (snd (ingest_perplexity_for_all_users example_env wait_timeout inactive_world)) = []"
    by simp
  from data_source_unresolved [of example_env absent_world "Some 3" None wait_timeout] h' j'
  have b: "length (w_ingestion_jobs (snd (ingest_perplexity example_env absent_world (Some 3) None))) = 1
   \<and> length (w_ingestion_jobs (snd (ingest_perplexity_for_all_users example_env wait_timeout absent_world))) = 1"
    by simp
  from a b h h' show ?thesis by blast
qed

end
